theory Spec2Isabelle
  imports Complex_Main "HOL-Library.Log_Nat"
begin

section \<open>Order fulfilment of ldc-shop: \<open>processOrderFulfillment\<close>\<close>

text \<open>
  The function under study reads an order, checks the paid amount, and then either
  records a pure payment, delivers the key of a shared card, or claims cards of an
  exhaustible product in two phases (cards reserved for the order first, then free
  cards of the product). The store offers no transaction: every statement is one
  isolated read or write.
\<close>

subsection \<open>JavaScript numbers\<close>

text \<open>
  A JavaScript number is an IEEE 754 binary64 value: NaN, an infinity, or a finite value,
  which is a rational \<open>m * 2 ^ e\<close> with \<open>|m| < 2 ^ 53\<close> and \<open>- 1074 \<le> e \<le> 971\<close>. The sign
  of zero plays no part in the amount check and is left out.

  \<open>double_of x\<close> is the number nearest to the rational \<open>x\<close>, ties going to the even
  significand: with \<open>e\<close> the exponent of \<open>x\<close>, not below \<open>- 1022\<close>, it is the multiple
  \<open>m * 2 ^ (e - 52)\<close> nearest to \<open>x\<close>, and an infinity when that has reached \<open>2 ^ 1024\<close>
  (\<open>e \<ge> 1024\<close>, or \<open>e = 1023\<close> and \<open>m = 2 ^ 53\<close>). It is the value of a
  decimal literal such as \<open>0.01\<close>, the value \<open>parseFloat\<close> returns for a decimal text, and
  the rounding that ends every arithmetic operation.
\<close>

datatype number = NaN | PosInf | NegInf | Fin rat

definition pow2 :: "int \<Rightarrow> rat" where
  "pow2 e = (if 0 \<le> e then 2 ^ nat e else 1 / 2 ^ nat (- e))"

text \<open>The exponent \<open>e\<close> with \<open>2 ^ e \<le> a < 2 ^ (e + 1)\<close>, for \<open>a > 0\<close>.\<close>

definition ilog2 :: "rat \<Rightarrow> int" where
  "ilog2 a =
     (case quotient_of a of
        (p, q) \<Rightarrow> (let e0 = bitlen p - bitlen q in if pow2 e0 \<le> a then e0 else e0 - 1))"

definition round_half_even :: "rat \<Rightarrow> int" where
  "round_half_even y =
     (let f = \<lfloor>y\<rfloor>; r = y - of_int f
      in if r < 1 / 2 then f
         else if 1 / 2 < r then f + 1
         else if even f then f else f + 1)"

definition double_of :: "rat \<Rightarrow> number" where
  "double_of x =
     (if x = 0 then Fin 0
      else (let a = \<bar>x\<bar>;
                e = max (ilog2 a) (- 1022);
                q = pow2 (e - 52);
                m = round_half_even (a / q);
                v = of_int m * q
            in if 1024 \<le> e \<or> (e = 1023 \<and> m = 2 ^ 53)
               then (if 0 < x then PosInf else NegInf)
               else Fin (if 0 < x then v else - v)))"

text \<open>
  The three operations of the amount check: \<open>a - b\<close>, \<open>Math.abs\<close> and the comparison
  \<open>a > b\<close>. The difference of two finite numbers is rounded; the absolute value of a
  number is a number.
\<close>

fun js_sub :: "number \<Rightarrow> number \<Rightarrow> number" where
  "js_sub NaN _ = NaN"
| "js_sub _ NaN = NaN"
| "js_sub PosInf PosInf = NaN"
| "js_sub NegInf NegInf = NaN"
| "js_sub PosInf _ = PosInf"
| "js_sub NegInf _ = NegInf"
| "js_sub (Fin a) PosInf = NegInf"
| "js_sub (Fin a) NegInf = PosInf"
| "js_sub (Fin a) (Fin b) = double_of (a - b)"

fun js_abs :: "number \<Rightarrow> number" where
  "js_abs NaN = NaN"
| "js_abs PosInf = PosInf"
| "js_abs NegInf = PosInf"
| "js_abs (Fin a) = Fin \<bar>a\<bar>"

fun js_gt :: "number \<Rightarrow> number \<Rightarrow> bool" where
  "js_gt NaN _ = False"
| "js_gt _ NaN = False"
| "js_gt PosInf PosInf = False"
| "js_gt PosInf _ = True"
| "js_gt NegInf _ = False"
| "js_gt (Fin a) PosInf = False"
| "js_gt (Fin a) NegInf = True"
| "js_gt (Fin a) (Fin b) = (b < a)"

text \<open>The test of line 35: \<open>Math.abs(paidAmount - orderMoney) > 0.01\<close>.\<close>

definition amount_mismatch :: "number \<Rightarrow> number \<Rightarrow> bool" where
  "amount_mismatch paidAmount orderMoney =
     js_gt (js_abs (js_sub paidAmount orderMoney)) (double_of (1 / 100))"

subsection \<open>The tables\<close>

text \<open>
  The schema module is not part of the function's file; the rows carry the columns the
  function reads and writes. Timestamps are milliseconds. A nullable column is an
  option. The \<open>orders\<close> table is keyed by its unique \<open>orderId\<close>, the \<open>products\<close> table
  by its \<open>id\<close>; the \<open>cards\<close> table is a list in the order an unordered \<open>SELECT\<close>
  returns its rows. \<open>amount\<close> holds the number that \<open>parseFloat\<close> reads from the stored
  text: \<open>double_of q\<close> for a decimal text of value \<open>q\<close>. A \<open>quantity\<close> of 0 stands for every value that \<open>order.quantity || 1\<close> replaces
  by 1.
\<close>

record order =
  productId :: string
  amount :: number
  quantity :: nat
  status :: string
  paidAt :: "int option"
  deliveredAt :: "int option"
  tradeNo :: "string option"
  cardKey :: "string option"
  currentPaymentId :: "string option"

record card =
  c_id :: nat
  c_productId :: string
  c_cardKey :: string
  isUsed :: "bool option"
  usedAt :: "int option"
  reservedOrderId :: "string option"
  reservedAt :: "int option"

record product =
  isShared :: bool

text \<open>
  \<open>has_reservedOrderId\<close> says whether the \<open>cards\<close> table has the column
  \<open>reservedOrderId\<close>: the source expects that it may be missing (line 131), in which
  case the query of lines 114-117 raises. Whether the table has the column
  \<open>reservedAt\<close>, which the Phase 2 query reads outside the \<open>try\<close>, is the parameter
  \<open>has_reservedAt\<close> of the functions below. No other request to the store is taken to
  fail.
\<close>

record db =
  orders :: "string \<rightharpoonup> order"
  cards :: "card list"
  products :: "string \<rightharpoonup> product"
  has_reservedOrderId :: bool

datatype error = OrderNotFound string | AmountMismatch number number | QueryFailed

datatype fulfil_status = Processed | AlreadyProcessed

subsection \<open>Single statements\<close>

text \<open>\<open>db.update(orders).set(...).where(eq(orders.orderId, orderId))\<close>\<close>

definition update_orders :: "db \<Rightarrow> string \<Rightarrow> (order \<Rightarrow> order) \<Rightarrow> db" where
  "update_orders d orderId f =
     (case orders d orderId of
        None \<Rightarrow> d
      | Some row \<Rightarrow> d\<lparr>orders := (orders d)(orderId \<mapsto> f row)\<rparr>)"

text \<open>\<open>db.update(cards).set(...).where(eq(cards.id, card.id))\<close>\<close>

definition update_cards :: "db \<Rightarrow> nat \<Rightarrow> (card \<Rightarrow> card) \<Rightarrow> db" where
  "update_cards d i f = d\<lparr>cards := map (\<lambda>c. if c_id c = i then f c else c) (cards d)\<rparr>"

text \<open>\<open>COALESCE(isUsed, 0) = 0\<close>\<close>

definition unused :: "card \<Rightarrow> bool" where
  "unused c = (isUsed c \<noteq> Some True)"

text \<open>\<open>cardKeys.join('\n')\<close>\<close>

fun join_nl :: "string list \<Rightarrow> string" where
  "join_nl [] = []"
| "join_nl [k] = k"
| "join_nl (k # ks) = k @ CHR 0x0A # join_nl ks"

text \<open>\<open>order.quantity || 1\<close>\<close>

definition quantity_or_1 :: "order \<Rightarrow> nat" where
  "quantity_or_1 ord = (if quantity ord = 0 then 1 else quantity ord)"

subsection \<open>Shared products (lines 63-104)\<close>

text \<open>
  The rows that the query of lines 68-72 orders at random; \<open>rnd\<close> stands for the
  random order, of which only the first row is kept.
\<close>

definition shared_eligible :: "db \<Rightarrow> string \<Rightarrow> card list" where
  "shared_eligible d pid = filter (\<lambda>c. c_productId c = pid \<and> unused c) (cards d)"

definition shared_select :: "nat \<Rightarrow> db \<Rightarrow> string \<Rightarrow> card list" where
  "shared_select rnd d pid =
     (let eligible = shared_eligible d pid
      in if eligible = [] then [] else [eligible ! (rnd mod length eligible)])"

definition fulfill_shared ::
  "nat \<Rightarrow> int \<Rightarrow> db \<Rightarrow> string \<Rightarrow> order \<Rightarrow> string \<Rightarrow> (error + fulfil_status) \<times> db" where
  "fulfill_shared rnd now d orderId ord tradeNo' =
     (case shared_select rnd d (productId ord) of
        availableCard # _ \<Rightarrow>
          (let key = c_cardKey availableCard;
               cardKeys = replicate (quantity_or_1 ord) key
           in (Inr Processed,
               update_orders d orderId (\<lambda>row. row\<lparr>status := ''delivered'',
                 paidAt := Some now, deliveredAt := Some now, tradeNo := Some tradeNo',
                 cardKey := Some (join_nl cardKeys), currentPaymentId := None\<rparr>)))
      | [] \<Rightarrow>
          (Inr Processed,
           update_orders d orderId (\<lambda>row. row\<lparr>status := ''paid'',
             paidAt := Some now, tradeNo := Some tradeNo'\<rparr>)))"

subsection \<open>Exhaustible products (lines 106-178)\<close>

text \<open>Phase 1: the query of lines 114-117 and the loop of lines 119-129.\<close>

definition reserved_select :: "db \<Rightarrow> string \<Rightarrow> nat \<Rightarrow> card list" where
  "reserved_select d orderId n =
     take n (filter (\<lambda>c. reservedOrderId c = Some orderId \<and> unused c) (cards d))"

fun claim_reserved :: "int \<Rightarrow> card list \<Rightarrow> db \<times> string list \<Rightarrow> db \<times> string list" where
  "claim_reserved now [] s = s"
| "claim_reserved now (c # rest) (d, cardKeys) =
     claim_reserved now rest
       (update_cards d (c_id c) (\<lambda>row. row\<lparr>isUsed := Some True, usedAt := Some now,
          reservedOrderId := None, reservedAt := None\<rparr>),
        cardKeys @ [c_cardKey c])"

text \<open>The \<open>try\<close> of lines 113-133: a failing query leaves \<open>cardKeys\<close> empty.\<close>

definition phase1 :: "int \<Rightarrow> db \<Rightarrow> string \<Rightarrow> nat \<Rightarrow> db \<times> string list" where
  "phase1 now d orderId n =
     (if has_reservedOrderId d
      then claim_reserved now (reserved_select d orderId n) (d, [])
      else (d, []))"

text \<open>
  Phase 2: the query of lines 140-143 and the loop of lines 145-153, on a table that has
  the column \<open>reservedAt\<close>.
\<close>

definition available :: "int \<Rightarrow> string \<Rightarrow> card \<Rightarrow> bool" where
  "available oneMinuteAgo pid c =
     (c_productId c = pid \<and> unused c \<and>
      (case reservedAt c of None \<Rightarrow> True | Some t \<Rightarrow> t < oneMinuteAgo))"

definition available_select :: "int \<Rightarrow> db \<Rightarrow> string \<Rightarrow> nat \<Rightarrow> card list" where
  "available_select oneMinuteAgo d pid needed =
     take needed (filter (available oneMinuteAgo pid) (cards d))"

fun claim_available :: "int \<Rightarrow> card list \<Rightarrow> db \<times> string list \<Rightarrow> db \<times> string list" where
  "claim_available now [] s = s"
| "claim_available now (c # rest) (d, cardKeys) =
     claim_available now rest
       (update_cards d (c_id c) (\<lambda>row. row\<lparr>isUsed := Some True, usedAt := Some now\<rparr>),
        cardKeys @ [c_cardKey c])"

definition phase2 :: "int \<Rightarrow> string \<Rightarrow> nat \<Rightarrow> db \<times> string list \<Rightarrow> db \<times> string list" where
  "phase2 now pid n s =
     (let oneMinuteAgo = now - 60000
      in if length (snd s) < n
         then claim_available now
                (available_select oneMinuteAgo (fst s) pid (n - length (snd s))) s
         else s)"

text \<open>
  The same on a table that may lack the column \<open>reservedAt\<close>: the query of lines 140-143
  then raises, and nothing catches it.
\<close>

definition available_query :: "bool \<Rightarrow> int \<Rightarrow> db \<Rightarrow> string \<Rightarrow> nat \<Rightarrow> card list option" where
  "available_query has_reservedAt oneMinuteAgo d pid needed =
     (if has_reservedAt then Some (available_select oneMinuteAgo d pid needed) else None)"

definition phase2_on ::
  "bool \<Rightarrow> int \<Rightarrow> string \<Rightarrow> nat \<Rightarrow> db \<times> string list \<Rightarrow> (db \<times> string list) option" where
  "phase2_on has_reservedAt now pid n s =
     (let oneMinuteAgo = now - 60000
      in if length (snd s) < n
         then (case available_query has_reservedAt oneMinuteAgo (fst s) pid
                      (n - length (snd s)) of
                 None \<Rightarrow> None
               | Some availableCards \<Rightarrow> Some (claim_available now availableCards s))
         else Some s)"

text \<open>The final update of the order, lines 158-177.\<close>

definition finish_order :: "int \<Rightarrow> string \<Rightarrow> string \<Rightarrow> db \<times> string list \<Rightarrow> db" where
  "finish_order now orderId tradeNo' s =
     (if length (snd s) > 0
      then update_orders (fst s) orderId (\<lambda>row. row\<lparr>status := ''delivered'',
             paidAt := Some now, deliveredAt := Some now, tradeNo := Some tradeNo',
             cardKey := Some (join_nl (snd s))\<rparr>)
      else update_orders (fst s) orderId (\<lambda>row. row\<lparr>status := ''paid'',
             paidAt := Some now, tradeNo := Some tradeNo'\<rparr>))"

text \<open>
  The branch as a whole. A query that raises in Phase 2 ends the call with that error;
  the store is then as Phase 1 left it. \<open>fulfill_exhaustible\<close> is the branch on a table
  that has \<open>reservedAt\<close>.
\<close>

definition fulfill_exhaustible_on ::
  "bool \<Rightarrow> int \<Rightarrow> db \<Rightarrow> string \<Rightarrow> order \<Rightarrow> string \<Rightarrow> (error + fulfil_status) \<times> db" where
  "fulfill_exhaustible_on has_reservedAt now d orderId ord tradeNo' =
     (let n = quantity_or_1 ord;
          reserved = phase1 now d orderId n
      in case phase2_on has_reservedAt now (productId ord) n reserved of
           None \<Rightarrow> (Inl QueryFailed, fst reserved)
         | Some s \<Rightarrow> (Inr Processed, finish_order now orderId tradeNo' s))"

definition fulfill_exhaustible ::
  "int \<Rightarrow> db \<Rightarrow> string \<Rightarrow> order \<Rightarrow> string \<Rightarrow> (error + fulfil_status) \<times> db" where
  "fulfill_exhaustible = fulfill_exhaustible_on True"

subsection \<open>The entry point (lines 22-182)\<close>

text \<open>
  \<open>isPaymentOrder\<close> is imported from another module and is a parameter here, as is
  \<open>has_reservedAt\<close>. \<open>now\<close> is the clock, read as one instant for the whole call. The
  result pairs what the caller gets (an error for a \<open>throw\<close>) with the store the call
  leaves behind.
\<close>

definition product_isShared :: "db \<Rightarrow> string \<Rightarrow> bool" where
  "product_isShared d pid = (case products d pid of None \<Rightarrow> False | Some p \<Rightarrow> isShared p)"

definition processOrderFulfillment_on ::
  "bool \<Rightarrow> (string \<Rightarrow> bool) \<Rightarrow> nat \<Rightarrow> int \<Rightarrow> db \<Rightarrow> string \<Rightarrow> number \<Rightarrow> string
     \<Rightarrow> (error + fulfil_status) \<times> db" where
  "processOrderFulfillment_on has_reservedAt isPaymentOrder rnd now d orderId paidAmount tradeNo' =
     (case orders d orderId of
        None \<Rightarrow> (Inl (OrderNotFound orderId), d)
      | Some ord \<Rightarrow>
          (let orderMoney = amount ord
           in if amount_mismatch paidAmount orderMoney
              then (Inl (AmountMismatch orderMoney paidAmount), d)
              else if isPaymentOrder (productId ord)
              then (if status ord = ''pending'' \<or> status ord = ''cancelled''
                    then (Inr Processed,
                          update_orders d orderId (\<lambda>row. row\<lparr>status := ''paid'',
                            paidAt := Some now, tradeNo := Some tradeNo'\<rparr>))
                    else (Inr Processed, d))
              else if status ord = ''pending'' \<or> status ord = ''cancelled''
              then (if product_isShared d (productId ord)
                    then fulfill_shared rnd now d orderId ord tradeNo'
                    else fulfill_exhaustible_on has_reservedAt now d orderId ord tradeNo')
              else (Inr AlreadyProcessed, d)))"

text \<open>
  \<open>processOrderFulfillment\<close> is the function on a store whose \<open>cards\<close> table has the
  column \<open>reservedAt\<close>.
\<close>

definition processOrderFulfillment ::
  "(string \<Rightarrow> bool) \<Rightarrow> nat \<Rightarrow> int \<Rightarrow> db \<Rightarrow> string \<Rightarrow> number \<Rightarrow> string
     \<Rightarrow> (error + fulfil_status) \<times> db" where
  "processOrderFulfillment = processOrderFulfillment_on True"

subsection \<open>Several calls\<close>

text \<open>
  A sequence of calls, each on the store that the call before it left.
\<close>

record call =
  call_rnd :: nat
  call_now :: int
  call_orderId :: string
  call_paidAmount :: number
  call_tradeNo :: string

fun run_calls :: "(string \<Rightarrow> bool) \<Rightarrow> call list \<Rightarrow> db \<Rightarrow> db" where
  "run_calls isPaymentOrder [] d = d"
| "run_calls isPaymentOrder (c # cs) d =
     run_calls isPaymentOrder cs
       (snd (processOrderFulfillment isPaymentOrder (call_rnd c) (call_now c) d
          (call_orderId c) (call_paidAmount c) (call_tradeNo c)))"

text \<open>
  Calls that run concurrently. Each statement of the source that reaches the store is an
  \<open>await\<close>ed request, and another call may run between two of them. A task is a call
  inside the exhaustible branch (lines 106-178): the order it read, the point it has
  reached, the rows of its last query that its loop has not visited yet, and its
  \<open>cardKeys\<close>. A failed Phase 1 query (line 130) is a query without rows. The table
  has the column \<open>reservedAt\<close>.
\<close>

datatype pc = Phase1_query | Phase1_loop | Phase2_query | Phase2_loop | Final_update | Returned

record task =
  t_orderId :: string
  t_order :: order
  t_tradeNo :: string
  t_pc :: pc
  t_rows :: "card list"
  t_cardKeys :: "string list"

text \<open>The task of a call that enters the exhaustible branch at line 106.\<close>

definition start :: "string \<Rightarrow> order \<Rightarrow> string \<Rightarrow> task" where
  "start orderId ord tn = \<lparr>t_orderId = orderId, t_order = ord, t_tradeNo = tn,
     t_pc = Phase1_query, t_rows = [], t_cardKeys = []\<rparr>"

text \<open>One request to the store, and the local computation up to the next one.\<close>

definition step :: "int \<Rightarrow> db \<Rightarrow> task \<Rightarrow> db \<times> task" where
  "step now d t =
     (let n = quantity_or_1 (t_order t)
      in case t_pc t of
           Phase1_query \<Rightarrow>
             (d, t\<lparr>t_rows := (if has_reservedOrderId d
                               then reserved_select d (t_orderId t) n else []),
                   t_pc := Phase1_loop\<rparr>)
         | Phase1_loop \<Rightarrow>
             (case t_rows t of
                [] \<Rightarrow> (d, t\<lparr>t_pc := Phase2_query\<rparr>)
              | c # rest \<Rightarrow>
                  (update_cards d (c_id c) (\<lambda>row. row\<lparr>isUsed := Some True,
                     usedAt := Some now, reservedOrderId := None, reservedAt := None\<rparr>),
                   t\<lparr>t_rows := rest, t_cardKeys := t_cardKeys t @ [c_cardKey c]\<rparr>))
         | Phase2_query \<Rightarrow>
             (if length (t_cardKeys t) < n
              then (d, t\<lparr>t_rows := available_select (now - 60000) d (productId (t_order t))
                                    (n - length (t_cardKeys t)),
                         t_pc := Phase2_loop\<rparr>)
              else (d, t\<lparr>t_pc := Final_update\<rparr>))
         | Phase2_loop \<Rightarrow>
             (case t_rows t of
                [] \<Rightarrow> (d, t\<lparr>t_pc := Final_update\<rparr>)
              | c # rest \<Rightarrow>
                  (update_cards d (c_id c) (\<lambda>row. row\<lparr>isUsed := Some True,
                     usedAt := Some now\<rparr>),
                   t\<lparr>t_rows := rest, t_cardKeys := t_cardKeys t @ [c_cardKey c]\<rparr>))
         | Final_update \<Rightarrow>
             (finish_order now (t_orderId t) (t_tradeNo t) (d, t_cardKeys t),
              t\<lparr>t_pc := Returned\<rparr>)
         | Returned \<Rightarrow> (d, t))"

text \<open>\<open>steps\<close> runs one task alone; \<open>run\<close> runs several, the schedule naming the task
  that makes each step.\<close>

fun steps :: "int \<Rightarrow> nat \<Rightarrow> db \<times> task \<Rightarrow> db \<times> task" where
  "steps now 0 s = s"
| "steps now (Suc k) s = steps now k (step now (fst s) (snd s))"

fun run :: "int \<Rightarrow> nat list \<Rightarrow> db \<times> task list \<Rightarrow> db \<times> task list" where
  "run now [] s = s"
| "run now (i # sched) s =
     (if i < length (snd s)
      then (case step now (fst s) (snd s ! i) of
              (d', t') \<Rightarrow> run now sched (d', (snd s)[i := t']))
      else run now sched s)"

section \<open>Rows and stores used in the properties\<close>

text \<open>
  \<open>delivered_row\<close> and \<open>paid_row\<close> are the two final updates of an order, as
  functions of the row they change. The \<open>ex_\<close> definitions are small concrete stores
  on which the theorems are instantiated.
\<close>

definition ex_order :: "string \<Rightarrow> string \<Rightarrow> nat \<Rightarrow> order" where
  "ex_order pid st q = \<lparr>productId = pid, amount = double_of (999 / 100), quantity = q,
     status = st, paidAt = None, deliveredAt = None, tradeNo = None,
     cardKey = None, currentPaymentId = Some ''pay1''\<rparr>"

definition ex_order_1999 :: order where
  "ex_order_1999 = (ex_order ''P'' ''pending'' 1)\<lparr>amount := double_of (1999 / 100)\<rparr>"

definition ex_card :: "nat \<Rightarrow> string \<Rightarrow> string option \<Rightarrow> int option \<Rightarrow> card" where
  "ex_card i k ro ra = \<lparr>c_id = i, c_productId = ''P'', c_cardKey = k, isUsed = None,
     usedAt = None, reservedOrderId = ro, reservedAt = ra\<rparr>"

definition ex_db :: "order \<Rightarrow> card list \<Rightarrow> bool \<Rightarrow> bool \<Rightarrow> db" where
  "ex_db ord cs sh col = \<lparr>orders = [''A'' \<mapsto> ord], cards = cs,
     products = [''P'' \<mapsto> \<lparr>isShared = sh\<rparr>], has_reservedOrderId = col\<rparr>"

definition ex_isPaymentOrder :: "string \<Rightarrow> bool" where
  "ex_isPaymentOrder pid = (pid = ''PAY'')"

definition ex_paymentP :: "string \<Rightarrow> bool" where
  "ex_paymentP pid = (pid = ''P'')"

definition ex_cards5 :: "card list" where
  "ex_cards5 =
     [ex_card 1 ''K1'' (Some ''B'') (Some 1000), ex_card 2 ''K2'' (Some ''B'') (Some 90000),
      ex_card 3 ''K3'' None None, ex_card 4 ''K4'' None None]"

definition ex_db2 :: db where
  "ex_db2 = \<lparr>orders = [''A'' \<mapsto> ex_order ''P'' ''pending'' 1,
                       ''B'' \<mapsto> ex_order ''P'' ''pending'' 1],
     cards = [ex_card 1 ''K1'' None None, ex_card 2 ''K2'' None None],
     products = [''P'' \<mapsto> \<lparr>isShared = False\<rparr>], has_reservedOrderId = True\<rparr>"

definition ex_tasks :: "task list" where
  "ex_tasks = [start ''A'' (ex_order ''P'' ''pending'' 1) ''TA'',
               start ''B'' (ex_order ''P'' ''pending'' 1) ''TB'']"

definition ex_duplicate :: "task list" where
  "ex_duplicate = [start ''A'' (ex_order ''P'' ''pending'' 1) ''TA'',
                   start ''A'' (ex_order ''P'' ''pending'' 1) ''TB'']"

definition ex_interleaved :: "nat list" where
  "ex_interleaved = [0, 0, 1, 1, 0, 1, 0, 0, 1, 1, 0, 1]"

definition ex_sequential :: "nat list" where
  "ex_sequential = [0, 0, 0, 0, 0, 0, 1, 1, 1, 1, 1, 1]"

definition delivered_row :: "int \<Rightarrow> string \<Rightarrow> string list \<Rightarrow> order \<Rightarrow> order" where
  "delivered_row now tn ks = (\<lambda>ord. ord\<lparr>status := ''delivered'', paidAt := Some now,
     deliveredAt := Some now, tradeNo := Some tn, cardKey := Some (join_nl ks)\<rparr>)"

definition paid_row :: "int \<Rightarrow> string \<Rightarrow> order \<Rightarrow> order" where
  "paid_row now tn = (\<lambda>ord. ord\<lparr>status := ''paid'', paidAt := Some now, tradeNo := Some tn\<rparr>)"

section \<open>Properties\<close>

subsection \<open>Auxiliary facts\<close>

lemma amount_mismatch_Fin:
  "amount_mismatch (Fin p) (Fin a) = js_gt (js_abs (double_of (p - a))) (double_of (1 / 100))"
  by (simp add: amount_mismatch_def)

lemma ex_amounts:
  "\<not> amount_mismatch (Fin 10) (double_of (999 / 100))"
  "amount_mismatch (Fin 1) (double_of (999 / 100))"
  "amount_mismatch (double_of (99 / 10)) (double_of (999 / 100))"
  "amount_mismatch PosInf (double_of (999 / 100))"
  "amount_mismatch (Fin 20) (double_of (1999 / 100))"
  by code_simp+

lemma phase2_on_True: "phase2_on True now pid n s = Some (phase2 now pid n s)"
  by (simp add: phase2_on_def phase2_def available_query_def Let_def)

lemma fulfill_exhaustible_unfold:
  "fulfill_exhaustible now d orderId ord tradeNo' =
     (let n = quantity_or_1 ord
      in (Inr Processed,
          finish_order now orderId tradeNo'
            (phase2 now (productId ord) n (phase1 now d orderId n))))"
  by (simp add: fulfill_exhaustible_def fulfill_exhaustible_on_def phase2_on_True Let_def)

lemma processOrderFulfillment_unfold:
  "processOrderFulfillment isPaymentOrder rnd now d orderId paidAmount tradeNo' =
     (case orders d orderId of
        None \<Rightarrow> (Inl (OrderNotFound orderId), d)
      | Some ord \<Rightarrow>
          (let orderMoney = amount ord
           in if amount_mismatch paidAmount orderMoney
              then (Inl (AmountMismatch orderMoney paidAmount), d)
              else if isPaymentOrder (productId ord)
              then (if status ord = ''pending'' \<or> status ord = ''cancelled''
                    then (Inr Processed,
                          update_orders d orderId (\<lambda>row. row\<lparr>status := ''paid'',
                            paidAt := Some now, tradeNo := Some tradeNo'\<rparr>))
                    else (Inr Processed, d))
              else if status ord = ''pending'' \<or> status ord = ''cancelled''
              then (if product_isShared d (productId ord)
                    then fulfill_shared rnd now d orderId ord tradeNo'
                    else fulfill_exhaustible now d orderId ord tradeNo')
              else (Inr AlreadyProcessed, d)))"
  by (simp add: processOrderFulfillment_def processOrderFulfillment_on_def
      fulfill_exhaustible_def Let_def split: option.split)

lemma update_cards_orders [simp]: "orders (update_cards d i f) = orders d"
  by (simp add: update_cards_def)

lemma update_cards_products [simp]: "products (update_cards d i f) = products d"
  by (simp add: update_cards_def)

lemma update_cards_has_reservedOrderId [simp]:
  "has_reservedOrderId (update_cards d i f) = has_reservedOrderId d"
  by (simp add: update_cards_def)

lemma claim_reserved_orders: "orders (fst (claim_reserved now cs s)) = orders (fst s)"
  by (induction now cs s rule: claim_reserved.induct) simp_all

lemma claim_reserved_keys: "snd (claim_reserved now cs s) = snd s @ map c_cardKey cs"
  by (induction now cs s rule: claim_reserved.induct) simp_all

lemma claim_available_orders: "orders (fst (claim_available now cs s)) = orders (fst s)"
  by (induction now cs s rule: claim_available.induct) simp_all

lemma claim_available_keys: "snd (claim_available now cs s) = snd s @ map c_cardKey cs"
  by (induction now cs s rule: claim_available.induct) simp_all

lemma phase1_orders: "orders (fst (phase1 now d orderId n)) = orders d"
  by (simp add: phase1_def claim_reserved_orders)

lemma phase2_orders: "orders (fst (phase2 now pid n s)) = orders (fst s)"
  by (simp add: phase2_def Let_def claim_available_orders)

lemma fst_fulfill_shared: "fst (fulfill_shared rnd now d orderId ord tn) = Inr Processed"
  by (simp add: fulfill_shared_def Let_def split: list.split)

lemma fst_fulfill_exhaustible: "fst (fulfill_exhaustible now d orderId ord tn) = Inr Processed"
  by (simp add: fulfill_exhaustible_unfold Let_def)

subsection \<open>Rounding\<close>

text \<open>
  The exponent that \<open>ilog2\<close> computes is the right one, the rounded significand is
  within one half of the exact quotient, and so \<open>double_of\<close> is within half a unit in the
  last place of its argument. Brought to the test of line 35: when the exact difference
  of the two numbers is at least \<open>0.01 + 10^-9\<close> the test holds, and when it is at most
  \<open>0.01 - 10^-9\<close> the test does not hold.
\<close>

lemma pow2_powi: "pow2 e = 2 powi e"
  by (simp add: pow2_def power_int_def inverse_eq_divide power_one_over)

lemma pow2_pos: "0 < pow2 e"
  by (simp add: pow2_powi)

lemma pow2_add: "pow2 (a + b) = pow2 a * pow2 b"
  by (simp add: pow2_powi power_int_add)

lemma pow2_strict_mono: "a < b \<Longrightarrow> pow2 a < pow2 b"
  unfolding pow2_powi by (rule power_int_strict_increasing) simp_all

lemma pow2_less_iff: "pow2 a < pow2 b \<longleftrightarrow> a < b"
proof
  assume l: "pow2 a < pow2 b"
  show "a < b"
  proof (rule ccontr)
    assume "\<not> a < b"
    then have "b = a \<or> b < a"
      by auto
    then have "pow2 b \<le> pow2 a"
      using pow2_strict_mono [of b a] by auto
    with l show False
      by simp
  qed
qed (rule pow2_strict_mono)

lemma pow2_le_iff: "pow2 a \<le> pow2 b \<longleftrightarrow> a \<le> b"
  using pow2_less_iff [of b a] by (auto simp: not_less [symmetric])

lemma of_int_bitlen_bounds:
  assumes "0 < p"
  shows "pow2 (bitlen p - 1) \<le> of_int p" and "of_int p < pow2 (bitlen p)"
proof -
  have b: "2 ^ nat (bitlen p - 1) \<le> p" "p < 2 ^ nat (bitlen p)"
    using bitlen_bounds [OF assms] by simp_all
  have pos: "1 \<le> bitlen p"
    using assms by (simp add: bitlen_alt_def)
  have "(of_int (2 ^ nat (bitlen p - 1)) :: rat) \<le> of_int p"
    using b(1) by (simp only: of_int_le_iff)
  then show "pow2 (bitlen p - 1) \<le> of_int p"
    using pos by (simp add: pow2_def)
  have "(of_int p :: rat) < of_int (2 ^ nat (bitlen p))"
    using b(2) by (simp only: of_int_less_iff)
  then show "of_int p < pow2 (bitlen p)"
    using pos by (simp add: pow2_def)
qed

lemma ilog2_bounds:
  assumes "0 < a"
  shows "pow2 (ilog2 a) \<le> a" and "a < pow2 (ilog2 a + 1)"
proof -
  obtain p q where pq: "quotient_of a = (p, q)"
    by (cases "quotient_of a")
  have q: "0 < q"
    using pq by (rule quotient_of_denom_pos)
  have a: "a = of_int p / of_int q"
    using pq by (rule quotient_of_div)
  have p: "0 < p"
    using assms q unfolding a by (simp add: zero_less_divide_iff)
  let ?e0 = "bitlen p - bitlen q"
  note bp = of_int_bitlen_bounds [OF p]
  note bq = of_int_bitlen_bounds [OF q]
  have qpos: "(0 :: rat) < of_int q"
    using q by simp
  have up: "a < pow2 (?e0 + 1)"
  proof -
    have "of_int p < pow2 (bitlen p)"
      by (rule bp(2))
    also have "pow2 (bitlen p) = pow2 (?e0 + 1) * pow2 (bitlen q - 1)"
      by (simp add: pow2_add [symmetric])
    also have "\<dots> \<le> pow2 (?e0 + 1) * of_int q"
      using bq(1) pow2_pos [of "?e0 + 1"] by (simp add: mult_left_mono)
    finally show ?thesis
      using qpos unfolding a by (simp add: pos_divide_less_eq)
  qed
  have lo: "pow2 (?e0 - 1) \<le> a"
  proof -
    have "pow2 (?e0 - 1) * of_int q \<le> pow2 (?e0 - 1) * pow2 (bitlen q)"
      using bq(2) pow2_pos [of "?e0 - 1"] by (simp add: mult_left_mono)
    also have "\<dots> = pow2 (bitlen p - 1)"
      by (simp add: pow2_add [symmetric])
    also have "\<dots> \<le> of_int p"
      by (rule bp(1))
    finally show ?thesis
      using qpos unfolding a by (simp add: pos_le_divide_eq)
  qed
  have il: "ilog2 a = (if pow2 ?e0 \<le> a then ?e0 else ?e0 - 1)"
    by (simp add: ilog2_def pq Let_def)
  show "pow2 (ilog2 a) \<le> a"
    using lo by (simp add: il)
  show "a < pow2 (ilog2 a + 1)"
    using up by (simp add: il not_le)
qed

lemma round_half_even_error: "\<bar>of_int (round_half_even y) - y\<bar> \<le> 1 / 2"
proof -
  have "of_int \<lfloor>y\<rfloor> \<le> y" "y < of_int \<lfloor>y\<rfloor> + 1"
    by linarith+
  then show ?thesis
    by (auto simp: round_half_even_def Let_def abs_le_iff)
qed

lemma round_half_even_nonneg: "0 \<le> y \<Longrightarrow> 0 \<le> round_half_even y"
  by (auto simp: round_half_even_def Let_def)


lemma double_of_abs:
  assumes "x \<noteq> 0"
  shows "\<exists>v. 0 \<le> v \<and>
             \<bar>v - \<bar>x\<bar>\<bar> \<le> pow2 (max (ilog2 \<bar>x\<bar>) (- 1022) - 52) / 2 \<and>
             (js_abs (double_of x) = PosInf \<and> 1023 \<le> max (ilog2 \<bar>x\<bar>) (- 1022) \<or>
              js_abs (double_of x) = Fin v)"
proof -
  let ?a = "\<bar>x\<bar>"
  let ?e = "max (ilog2 ?a) (- 1022)"
  let ?q = "pow2 (?e - 52)"
  let ?m = "round_half_even (?a / ?q)"
  let ?v = "of_int ?m * ?q"
  have q: "0 < ?q"
    by (rule pow2_pos)
  have "0 \<le> ?a / ?q"
    using q by simp
  then have m: "0 \<le> ?m"
    by (rule round_half_even_nonneg)
  then have v: "0 \<le> ?v"
    using q by simp
  have "\<bar>of_int ?m - ?a / ?q\<bar> * ?q \<le> (1 / 2) * ?q"
    using round_half_even_error [of "?a / ?q"] q by (simp only: mult_right_mono less_imp_le)
  moreover have "\<bar>of_int ?m - ?a / ?q\<bar> * ?q = \<bar>?v - ?a\<bar>"
  proof -
    have "\<bar>of_int ?m - ?a / ?q\<bar> * ?q = \<bar>(of_int ?m - ?a / ?q) * ?q\<bar>"
      using q by (simp add: abs_mult)
    also have "(of_int ?m - ?a / ?q) * ?q = ?v - ?a"
      using q by (simp add: field_simps)
    finally show ?thesis .
  qed
  ultimately have err: "\<bar>?v - ?a\<bar> \<le> ?q / 2"
    by simp
  have d: "js_abs (double_of x) = PosInf \<and> 1023 \<le> ?e \<or> js_abs (double_of x) = Fin ?v"
    using assms v by (auto simp: double_of_def Let_def)
  show ?thesis
    using v err d by blast
qed

lemma round_below_aux: "\<bar>v - X\<bar> \<le> Q / 2 \<Longrightarrow> Q \<le> A \<Longrightarrow> B = A / 2 \<Longrightarrow> X - B \<le> (v :: rat)"
  by linarith

lemma round_above_aux: "\<bar>v - X\<bar> \<le> Q / 2 \<Longrightarrow> Q \<le> A \<Longrightarrow> B = A / 2 \<Longrightarrow> (v :: rat) \<le> X + B"
  by linarith

lemma round_below:
  assumes "\<bar>v - X\<bar> \<le> Q / 2" and "Q \<le> X / 2 ^ 52"
  shows "X - X / 2 ^ 53 \<le> (v :: rat)"
  using assms by (rule round_below_aux) simp

lemma round_above:
  assumes "\<bar>v - X\<bar> \<le> Q / 2" and "Q \<le> 1 / 2 ^ 59"
  shows "(v :: rat) \<le> X + 1 / 2 ^ 60"
  using assms by (rule round_above_aux) simp

lemma double_of_0: "double_of 0 = Fin 0"
  by (simp add: double_of_def)

lemma double_of_hundredth: "double_of (1 / 100) = Fin (5764607523034235 / 576460752303423488)"
  by code_simp

lemma amount_mismatch_above:
  assumes "1 / 100 + 1 / 10 ^ 9 \<le> \<bar>p - a\<bar>"
  shows "amount_mismatch (Fin p) (Fin a)"
proof -
  let ?x = "p - a"
  have x: "?x \<noteq> 0"
    using assms by auto
  obtain v where v: "0 \<le> v"
      "\<bar>v - \<bar>?x\<bar>\<bar> \<le> pow2 (max (ilog2 \<bar>?x\<bar>) (- 1022) - 52) / 2"
      "js_abs (double_of ?x) = PosInf \<or> js_abs (double_of ?x) = Fin v"
    using double_of_abs [OF x] by blast
  have pos: "0 < \<bar>?x\<bar>"
    using x by simp
  have "pow2 (- 7) < \<bar>?x\<bar>"
    using assms by (simp add: pow2_def)
  also have "\<bar>?x\<bar> < pow2 (ilog2 \<bar>?x\<bar> + 1)"
    by (rule ilog2_bounds(2) [OF pos])
  finally have "- 7 \<le> ilog2 \<bar>?x\<bar>"
    by (simp add: pow2_less_iff)
  then have e: "max (ilog2 \<bar>?x\<bar>) (- 1022) = ilog2 \<bar>?x\<bar>"
    by simp
  have "pow2 (ilog2 \<bar>?x\<bar> - 52) = pow2 (ilog2 \<bar>?x\<bar>) * pow2 (- 52)"
    using pow2_add [of "ilog2 \<bar>?x\<bar>" "- 52"] by simp
  also have "\<dots> \<le> \<bar>?x\<bar> * pow2 (- 52)"
    using ilog2_bounds(1) [OF pos] pow2_pos [of "- 52"] by (simp add: mult_right_mono)
  finally have q: "pow2 (ilog2 \<bar>?x\<bar> - 52) \<le> \<bar>?x\<bar> / 2 ^ 52"
    by (simp add: pow2_def)
  have "\<bar>?x\<bar> - \<bar>?x\<bar> / 2 ^ 53 \<le> v"
    using v(2) q unfolding e by (rule round_below)
  moreover have "(1 / 100 + 1 / 10 ^ 9) * (1 - 1 / 2 ^ 53) \<le> \<bar>?x\<bar> * (1 - 1 / 2 ^ 53)"
    using assms by (intro mult_right_mono) simp_all
  ultimately have "(1 / 100 + 1 / 10 ^ 9) * (1 - 1 / 2 ^ 53) \<le> v"
    by (simp add: algebra_simps)
  then have "5764607523034235 / 576460752303423488 < v"
    by simp
  then show ?thesis
    using v(3) by (auto simp: amount_mismatch_def double_of_hundredth)
qed

lemma amount_mismatch_below:
  assumes "\<bar>p - a\<bar> \<le> 1 / 100 - 1 / 10 ^ 9"
  shows "\<not> amount_mismatch (Fin p) (Fin a)"
proof (cases "p - a = 0")
  case True
  then show ?thesis
    by (simp add: amount_mismatch_def double_of_hundredth double_of_0)
next
  case False
  let ?x = "p - a"
  obtain v where v: "0 \<le> v"
      "\<bar>v - \<bar>?x\<bar>\<bar> \<le> pow2 (max (ilog2 \<bar>?x\<bar>) (- 1022) - 52) / 2"
      "js_abs (double_of ?x) = PosInf \<and> 1023 \<le> max (ilog2 \<bar>?x\<bar>) (- 1022) \<or>
       js_abs (double_of ?x) = Fin v"
    using double_of_abs [OF False] by blast
  have pos: "0 < \<bar>?x\<bar>"
    using False by simp
  have "pow2 (ilog2 \<bar>?x\<bar>) \<le> \<bar>?x\<bar>"
    by (rule ilog2_bounds(1) [OF pos])
  also have "\<bar>?x\<bar> < pow2 (- 6)"
    using assms by (simp add: pow2_def)
  finally have "ilog2 \<bar>?x\<bar> < - 6"
    by (simp add: pow2_less_iff)
  then have e: "max (ilog2 \<bar>?x\<bar>) (- 1022) \<le> - 7"
    by simp
  then have "pow2 (max (ilog2 \<bar>?x\<bar>) (- 1022) - 52) \<le> pow2 (- 59)"
    by (simp add: pow2_le_iff)
  then have q: "pow2 (max (ilog2 \<bar>?x\<bar>) (- 1022) - 52) \<le> 1 / 2 ^ 59"
    by (simp add: pow2_def)
  have "v \<le> \<bar>?x\<bar> + 1 / 2 ^ 60"
    using v(2) q by (rule round_above)
  then have "v \<le> 1 / 100 - 1 / 10 ^ 9 + 1 / 2 ^ 60"
    using assms by simp
  then have "\<not> 5764607523034235 / 576460752303423488 < v"
    by simp
  then show ?thesis
    using v(3) e by (auto simp: amount_mismatch_def double_of_hundredth)
qed

lemma ex_doubles:
  "double_of (999 / 100) = Fin (5623870034678907 / 562949953421312)"
  "double_of (99 / 10) = Fin (5573204538870989 / 562949953421312)"
  "double_of (1999 / 100) = Fin (5626684784446013 / 281474976710656)"
  by code_simp+

subsection \<open>The amount guard\<close>

text \<open>
  Claim C2, with the comparison the code makes. Let the order \<open>orderId\<close> exist. If the
  test of line 35 holds, the call fails with \<open>AmountMismatch\<close> and leaves the whole store
  (orders and cards) as it was; if it does not hold, the call does not fail with
  \<open>AmountMismatch\<close>. On finite numbers the test is made on doubles: the difference is
  rounded and compared with the double nearest to 0.01. So the call fails whenever the
  two numbers differ by at least \<open>0.01 + 10^-9\<close> and never fails with \<open>AmountMismatch\<close>
  when they differ by at most \<open>0.01 - 10^-9\<close>; in between, rounding decides.
\<close>

theorem amount_guard:
  assumes "orders d orderId = Some ord"
  shows "(amount_mismatch paidAmount (amount ord) \<longrightarrow>
            processOrderFulfillment isPaymentOrder rnd now d orderId paidAmount tn
              = (Inl (AmountMismatch (amount ord) paidAmount), d)) \<and>
         (\<not> amount_mismatch paidAmount (amount ord) \<longrightarrow>
            (\<forall>x y. fst (processOrderFulfillment isPaymentOrder rnd now d orderId paidAmount tn)
               \<noteq> Inl (AmountMismatch x y))) \<and>
         (\<forall>p a. paidAmount = Fin p \<and> amount ord = Fin a \<longrightarrow>
            amount_mismatch paidAmount (amount ord)
              = js_gt (js_abs (double_of (p - a))) (double_of (1 / 100))) \<and>
         (\<forall>p a. paidAmount = Fin p \<and> amount ord = Fin a \<and> 1 / 100 + 1 / 10 ^ 9 \<le> \<bar>p - a\<bar> \<longrightarrow>
            processOrderFulfillment isPaymentOrder rnd now d orderId paidAmount tn
              = (Inl (AmountMismatch (amount ord) paidAmount), d)) \<and>
         (\<forall>p a. paidAmount = Fin p \<and> amount ord = Fin a \<and> \<bar>p - a\<bar> \<le> 1 / 100 - 1 / 10 ^ 9 \<longrightarrow>
            (\<forall>x y. fst (processOrderFulfillment isPaymentOrder rnd now d orderId paidAmount tn)
               \<noteq> Inl (AmountMismatch x y)))"
proof -
  let ?r = "processOrderFulfillment isPaymentOrder rnd now d orderId paidAmount tn"
  have a: "?r = (Inl (AmountMismatch (amount ord) paidAmount), d)"
    if "amount_mismatch paidAmount (amount ord)"
    using assms that by (simp add: processOrderFulfillment_unfold)
  have b: "fst ?r \<noteq> Inl (AmountMismatch x y)"
    if "\<not> amount_mismatch paidAmount (amount ord)" for x y
    using assms that
    by (simp add: processOrderFulfillment_unfold fst_fulfill_shared fst_fulfill_exhaustible)
  have c: "amount_mismatch paidAmount (amount ord)
      = js_gt (js_abs (double_of (p - a))) (double_of (1 / 100))"
    if "paidAmount = Fin p \<and> amount ord = Fin a" for p a
    using that by (simp add: amount_mismatch_Fin)
  have d: "?r = (Inl (AmountMismatch (amount ord) paidAmount), d)"
    if "paidAmount = Fin p \<and> amount ord = Fin a \<and> 1 / 100 + 1 / 10 ^ 9 \<le> \<bar>p - a\<bar>" for p a
    using that amount_mismatch_above [of p a] by (intro a) simp
  have e: "fst ?r \<noteq> Inl (AmountMismatch x y)"
    if "paidAmount = Fin p \<and> amount ord = Fin a \<and> \<bar>p - a\<bar> \<le> 1 / 100 - 1 / 10 ^ 9" for p a x y
    using that amount_mismatch_below [of p a] by (intro b) simp
  show ?thesis
    apply (intro conjI allI impI)
    subgoal by (erule a)
    subgoal by (erule b)
    subgoal by (erule c)
    subgoal by (erule d)
    subgoal by (erule e)
    done
qed

theorem amount_guard_witness:
  "processOrderFulfillment ex_isPaymentOrder 0 100000
       (ex_db (ex_order ''P'' ''pending'' 2) [] False True) ''A'' (double_of (99 / 10)) ''T''
     = (Inl (AmountMismatch (double_of (999 / 100)) (double_of (99 / 10))),
        ex_db (ex_order ''P'' ''pending'' 2) [] False True) \<and>
   (\<forall>x y. fst (processOrderFulfillment ex_isPaymentOrder 0 100000
        (ex_db (ex_order ''P'' ''pending'' 2) [] False True) ''A'' (Fin 10) ''T'')
      \<noteq> Inl (AmountMismatch x y)) \<and>
   (\<forall>x y. fst (processOrderFulfillment ex_isPaymentOrder 0 100000
        (ex_db (ex_order ''P'' ''pending'' 2) [] False True) ''A'' (double_of (999 / 100)) ''T'')
      \<noteq> Inl (AmountMismatch x y))"
proof -
  let ?d = "ex_db (ex_order ''P'' ''pending'' 2) [] False True"
  let ?o = "ex_order ''P'' ''pending'' 2"
  have o: "orders ?d ''A'' = Some ?o"
    by (simp add: ex_db_def)
  have am: "amount ?o = Fin (5623870034678907 / 562949953421312)"
    by (simp add: ex_order_def ex_doubles)
  have pd: "double_of (99 / 10) = Fin (5573204538870989 / 562949953421312)"
    by (rule ex_doubles)
  note t1 = amount_guard [OF o, where paidAmount = "double_of (99 / 10)"
      and isPaymentOrder = ex_isPaymentOrder and rnd = 0 and now = 100000 and tn = "''T''"]
  note t2 = amount_guard [OF o, where paidAmount = "Fin 10"
      and isPaymentOrder = ex_isPaymentOrder and rnd = 0 and now = 100000 and tn = "''T''"]
  note t3 = amount_guard [OF o, where paidAmount = "double_of (999 / 100)"
      and isPaymentOrder = ex_isPaymentOrder and rnd = 0 and now = 100000 and tn = "''T''"]
  have h1: "double_of (99 / 10) = Fin (5573204538870989 / 562949953421312) \<and>
      amount ?o = Fin (5623870034678907 / 562949953421312) \<and>
      1 / 100 + 1 / 10 ^ 9
        \<le> \<bar>5573204538870989 / 562949953421312 - 5623870034678907 / (562949953421312 :: rat)\<bar>"
    by (simp add: am pd)
  have 1: "processOrderFulfillment ex_isPaymentOrder 0 100000 ?d ''A'' (double_of (99 / 10)) ''T''
      = (Inl (AmountMismatch (amount ?o) (double_of (99 / 10))), ?d)"
    by (rule t1 [THEN conjunct2, THEN conjunct2, THEN conjunct2, THEN conjunct1, rule_format,
          OF h1])
  have 2: "fst (processOrderFulfillment ex_isPaymentOrder 0 100000 ?d ''A'' (Fin 10) ''T'')
      \<noteq> Inl (AmountMismatch x y)" for x y
    using t2 [THEN conjunct2, THEN conjunct1] ex_amounts(1)
    by (simp add: ex_order_def)
  have h3: "double_of (999 / 100) = Fin (5623870034678907 / 562949953421312) \<and>
      amount ?o = Fin (5623870034678907 / 562949953421312) \<and>
      \<bar>5623870034678907 / 562949953421312 - 5623870034678907 / (562949953421312 :: rat)\<bar>
        \<le> 1 / 100 - 1 / 10 ^ 9"
    by (simp add: am ex_doubles)
  have 3: "fst (processOrderFulfillment ex_isPaymentOrder 0 100000 ?d ''A''
      (double_of (999 / 100)) ''T'') \<noteq> Inl (AmountMismatch x y)" for x y
    by (rule t3 [THEN conjunct2, THEN conjunct2, THEN conjunct2, THEN conjunct2, rule_format,
          OF h3])
  show ?thesis
    using 1 2 3 by (simp add: ex_order_def)
qed

text \<open>
  As the claim is worded, amounts at most 0.01 apart never fail. The stored amount
  \<open>19.99\<close> is read as the double nearest to it, which lies below it; paid \<open>20\<close>, the
  difference of the two doubles exceeds the double \<open>0.01\<close>, and the call fails although
  \<open>20 - 19.99 = 0.01\<close>.
\<close>

theorem amount_guard_counterexample:
  "\<bar>20 - 1999 / 100\<bar> \<le> (1 / 100 :: rat) \<and>
   orders (ex_db ex_order_1999 [] False True) ''A'' = Some ex_order_1999 \<and>
   amount ex_order_1999 = double_of (1999 / 100) \<and>
   processOrderFulfillment ex_isPaymentOrder 0 100000
       (ex_db ex_order_1999 [] False True) ''A'' (Fin 20) ''T''
     = (Inl (AmountMismatch (double_of (1999 / 100)) (Fin 20)),
        ex_db ex_order_1999 [] False True)"
  by (simp add: processOrderFulfillment_unfold ex_db_def ex_order_1999_def ex_order_def
      ex_amounts Let_def)

subsection \<open>The final transition of an order\<close>



lemma phase1_keys:
  "snd (phase1 now d orderId n) =
     (if has_reservedOrderId d then map c_cardKey (reserved_select d orderId n) else [])"
  by (simp add: phase1_def claim_reserved_keys)

lemma phase2_keys:
  "snd (phase2 now pid n s) =
     snd s @ map c_cardKey (available_select (now - 60000) (fst s) pid (n - length (snd s)))"
  by (simp add: phase2_def Let_def claim_available_keys available_select_def)




subsection \<open>The amount check and the status guard\<close>

text \<open>
  Claim C10. For an existing order in any status, \<open>paid\<close> and \<open>delivered\<close> included, a
  call whose amount fails the check of line 35 fails with \<open>AmountMismatch\<close>, leaves the
  store as it was, and does not return \<open>already_processed\<close>.
\<close>

theorem amount_check_precedes_status_guard:
  assumes "orders d orderId = Some ord"
    and "amount_mismatch paidAmount (amount ord)"
  shows "processOrderFulfillment isPaymentOrder rnd now d orderId paidAmount tn
           = (Inl (AmountMismatch (amount ord) paidAmount), d) \<and>
         fst (processOrderFulfillment isPaymentOrder rnd now d orderId paidAmount tn)
           \<noteq> Inr AlreadyProcessed"
  using assms by (simp add: processOrderFulfillment_unfold)

theorem amount_check_precedes_status_guard_witness:
  "processOrderFulfillment ex_isPaymentOrder 0 100000
       (ex_db (ex_order ''P'' ''delivered'' 1) [] False True) ''A'' (double_of (99 / 10)) ''T''
     = (Inl (AmountMismatch (double_of (999 / 100)) (double_of (99 / 10))),
        ex_db (ex_order ''P'' ''delivered'' 1) [] False True) \<and>
   processOrderFulfillment ex_isPaymentOrder 0 100000
       (ex_db (ex_order ''P'' ''paid'' 1) [] False True) ''A'' PosInf ''T''
     = (Inl (AmountMismatch (double_of (999 / 100)) PosInf),
        ex_db (ex_order ''P'' ''paid'' 1) [] False True)"
  using
    amount_check_precedes_status_guard [where d = "ex_db (ex_order ''P'' ''delivered'' 1) [] False True"
      and orderId = "''A''" and ord = "ex_order ''P'' ''delivered'' 1"
      and paidAmount = "double_of (99 / 10)" and isPaymentOrder = ex_isPaymentOrder and rnd = 0
      and now = 100000 and tn = "''T''"]
    amount_check_precedes_status_guard [where d = "ex_db (ex_order ''P'' ''paid'' 1) [] False True"
      and orderId = "''A''" and ord = "ex_order ''P'' ''paid'' 1"
      and paidAmount = PosInf and isPaymentOrder = ex_isPaymentOrder and rnd = 0
      and now = 100000 and tn = "''T''"]
  by (simp add: ex_db_def ex_order_def ex_amounts)

subsection \<open>Payment orders\<close>

text \<open>
  Claim C9. Let the order exist, be a payment order, and let the amount pass the check.
  From \<open>pending\<close> or \<open>cancelled\<close> the order becomes \<open>paid\<close> with \<open>paidAt\<close> and \<open>tradeNo\<close>
  set, and nothing else changes; in any other status the store is unchanged. The call
  returns \<open>processed\<close>, not \<open>already_processed\<close>. The allocation is not entered: the
  cards are untouched, and the answer and the orders do not depend on the cards, the
  products, the reservation column or the random choice.
\<close>

theorem payment_order:
  assumes "orders d orderId = Some ord"
    and "\<not> amount_mismatch paidAmount (amount ord)"
    and "isPaymentOrder (productId ord)"
  shows "(let r = processOrderFulfillment isPaymentOrder rnd now d orderId paidAmount tn;
              r' = processOrderFulfillment isPaymentOrder rnd' now
                     (d\<lparr>cards := cs, products := ps, has_reservedOrderId := col\<rparr>)
                     orderId paidAmount tn
          in (status ord = ''pending'' \<or> status ord = ''cancelled'' \<longrightarrow>
                r = (Inr Processed, d\<lparr>orders := (orders d)(orderId \<mapsto> paid_row now tn ord)\<rparr>)) \<and>
             (status ord \<noteq> ''pending'' \<and> status ord \<noteq> ''cancelled'' \<longrightarrow>
                r = (Inr Processed, d)) \<and>
             fst r = Inr Processed \<and> fst r \<noteq> Inr AlreadyProcessed \<and>
             cards (snd r) = cards d \<and>
             fst r' = fst r \<and> orders (snd r') = orders (snd r))"
  using assms
  by (simp add: processOrderFulfillment_unfold update_orders_def paid_row_def Let_def)

theorem payment_order_witness:
  "processOrderFulfillment ex_isPaymentOrder 0 100000
       (ex_db (ex_order ''PAY'' ''cancelled'' 1) [ex_card 1 ''K1'' None None] False True)
       ''A'' (Fin 10) ''T''
     = (Inr Processed,
        ex_db (paid_row 100000 ''T'' (ex_order ''PAY'' ''cancelled'' 1))
          [ex_card 1 ''K1'' None None] False True) \<and>
   processOrderFulfillment ex_isPaymentOrder 0 100000
       (ex_db (ex_order ''PAY'' ''delivered'' 1) [ex_card 1 ''K1'' None None] False True)
       ''A'' (Fin 10) ''T''
     = (Inr Processed,
        ex_db (ex_order ''PAY'' ''delivered'' 1) [ex_card 1 ''K1'' None None] False True)"
  using
    payment_order [where d = "ex_db (ex_order ''PAY'' ''cancelled'' 1)
        [ex_card 1 ''K1'' None None] False True" and orderId = "''A''"
      and ord = "ex_order ''PAY'' ''cancelled'' 1" and paidAmount = "Fin 10"
      and isPaymentOrder = ex_isPaymentOrder and rnd = 0 and now = 100000 and tn = "''T''"
      and rnd' = 0 and cs = "[]" and ps = "Map.empty" and col = False]
    payment_order [where d = "ex_db (ex_order ''PAY'' ''delivered'' 1)
        [ex_card 1 ''K1'' None None] False True" and orderId = "''A''"
      and ord = "ex_order ''PAY'' ''delivered'' 1" and paidAmount = "Fin 10"
      and isPaymentOrder = ex_isPaymentOrder and rnd = 0 and now = 100000 and tn = "''T''"
      and rnd' = 0 and cs = "[]" and ps = "Map.empty" and col = False]
  by (simp add: ex_db_def ex_order_def ex_isPaymentOrder_def ex_amounts Let_def)

subsection \<open>Orders already paid or delivered\<close>

text \<open>
  Claim C3, with the two earlier branches it leaves out. A call on an existing order
  whose status is \<open>paid\<close> or \<open>delivered\<close> never changes the store. It returns
  \<open>already_processed\<close> when the amount passes the check and the order is not a payment
  order; it returns \<open>processed\<close> for a payment order whose amount passes the check, and
  fails with \<open>AmountMismatch\<close> when the amount does not.
\<close>

theorem terminal_state:
  assumes "orders d orderId = Some ord"
    and "status ord = ''paid'' \<or> status ord = ''delivered''"
  shows "(let r = processOrderFulfillment isPaymentOrder rnd now d orderId paidAmount tn
          in snd r = d \<and>
             (\<not> amount_mismatch paidAmount (amount ord) \<and> \<not> isPaymentOrder (productId ord)
                \<longrightarrow> fst r = Inr AlreadyProcessed) \<and>
             (\<not> amount_mismatch paidAmount (amount ord) \<and> isPaymentOrder (productId ord)
                \<longrightarrow> fst r = Inr Processed) \<and>
             (amount_mismatch paidAmount (amount ord)
                \<longrightarrow> fst r = Inl (AmountMismatch (amount ord) paidAmount)))"
  using assms by (auto simp: processOrderFulfillment_unfold Let_def)

theorem terminal_state_witness:
  "processOrderFulfillment ex_isPaymentOrder 0 100000
       (ex_db (ex_order ''P'' ''delivered'' 1) [ex_card 1 ''K1'' None None] False True)
       ''A'' (Fin 10) ''T''
     = (Inr AlreadyProcessed,
        ex_db (ex_order ''P'' ''delivered'' 1) [ex_card 1 ''K1'' None None] False True) \<and>
   processOrderFulfillment ex_isPaymentOrder 0 100000
       (ex_db (ex_order ''P'' ''paid'' 1) [ex_card 1 ''K1'' None None] False True)
       ''A'' (Fin 10) ''T''
     = (Inr AlreadyProcessed,
        ex_db (ex_order ''P'' ''paid'' 1) [ex_card 1 ''K1'' None None] False True) \<and>
   processOrderFulfillment ex_isPaymentOrder 0 100000
       (ex_db (ex_order ''PAY'' ''paid'' 1) [ex_card 1 ''K1'' None None] False True)
       ''A'' (Fin 10) ''T''
     = (Inr Processed,
        ex_db (ex_order ''PAY'' ''paid'' 1) [ex_card 1 ''K1'' None None] False True) \<and>
   processOrderFulfillment ex_isPaymentOrder 0 100000
       (ex_db (ex_order ''P'' ''delivered'' 1) [ex_card 1 ''K1'' None None] False True)
       ''A'' (Fin 1) ''T''
     = (Inl (AmountMismatch (double_of (999 / 100)) (Fin 1)),
        ex_db (ex_order ''P'' ''delivered'' 1) [ex_card 1 ''K1'' None None] False True)"
  using
    terminal_state [where d = "ex_db (ex_order ''P'' ''delivered'' 1)
        [ex_card 1 ''K1'' None None] False True" and orderId = "''A''"
      and ord = "ex_order ''P'' ''delivered'' 1" and paidAmount = "Fin 10"
      and isPaymentOrder = ex_isPaymentOrder and rnd = 0 and now = 100000 and tn = "''T''"]
    terminal_state [where d = "ex_db (ex_order ''P'' ''paid'' 1)
        [ex_card 1 ''K1'' None None] False True" and orderId = "''A''"
      and ord = "ex_order ''P'' ''paid'' 1" and paidAmount = "Fin 10"
      and isPaymentOrder = ex_isPaymentOrder and rnd = 0 and now = 100000 and tn = "''T''"]
    terminal_state [where d = "ex_db (ex_order ''PAY'' ''paid'' 1)
        [ex_card 1 ''K1'' None None] False True" and orderId = "''A''"
      and ord = "ex_order ''PAY'' ''paid'' 1" and paidAmount = "Fin 10"
      and isPaymentOrder = ex_isPaymentOrder and rnd = 0 and now = 100000 and tn = "''T''"]
    terminal_state [where d = "ex_db (ex_order ''P'' ''delivered'' 1)
        [ex_card 1 ''K1'' None None] False True" and orderId = "''A''"
      and ord = "ex_order ''P'' ''delivered'' 1" and paidAmount = "Fin 1"
      and isPaymentOrder = ex_isPaymentOrder and rnd = 0 and now = 100000 and tn = "''T''"]
  by (simp add: ex_db_def ex_order_def ex_isPaymentOrder_def ex_amounts Let_def
      prod_eq_iff)

text \<open>
  As the claim is worded, every call that sees a \<open>paid\<close> or \<open>delivered\<close> order returns
  \<open>already_processed\<close>. A paid payment order returns \<open>processed\<close>, and a delivered order
  with a mismatching amount fails.
\<close>

theorem terminal_state_counterexample:
  "orders (ex_db (ex_order ''PAY'' ''paid'' 1) [] False True) ''A''
     = Some (ex_order ''PAY'' ''paid'' 1) \<and>
   status (ex_order ''PAY'' ''paid'' 1) = ''paid'' \<and>
   fst (processOrderFulfillment ex_isPaymentOrder 0 100000
          (ex_db (ex_order ''PAY'' ''paid'' 1) [] False True) ''A'' (Fin 10) ''T'')
     = Inr Processed \<and>
   orders (ex_db (ex_order ''P'' ''delivered'' 1) [] False True) ''A''
     = Some (ex_order ''P'' ''delivered'' 1) \<and>
   status (ex_order ''P'' ''delivered'' 1) = ''delivered'' \<and>
   fst (processOrderFulfillment ex_isPaymentOrder 0 100000
          (ex_db (ex_order ''P'' ''delivered'' 1) [] False True) ''A'' (Fin 1) ''T'')
     = Inl (AmountMismatch (double_of (999 / 100)) (Fin 1))"
  by (simp add: processOrderFulfillment_unfold ex_amounts ex_db_def ex_order_def
      ex_isPaymentOrder_def Let_def)

subsection \<open>Shared products\<close>

text \<open>
  Claim C4, with the two guards it leaves out. Let the order exist, not be a payment
  order, be \<open>pending\<close> or \<open>cancelled\<close>, let the amount pass the check, let the product be
  shared and have at least one card that is not used. Then one such card is selected,
  the order becomes \<open>delivered\<close> with \<open>cardKey\<close> the card's key repeated
  \<open>order.quantity || 1\<close> times (\<open>order.quantity\<close> times when the quantity is positive) and
  joined by newlines, \<open>currentPaymentId\<close> becomes null, and no card changes.
\<close>

theorem shared_delivery:
  assumes "orders d orderId = Some ord"
    and "\<not> amount_mismatch paidAmount (amount ord)"
    and "\<not> isPaymentOrder (productId ord)"
    and "status ord = ''pending'' \<or> status ord = ''cancelled''"
    and "product_isShared d (productId ord)"
    and "shared_eligible d (productId ord) \<noteq> []"
  shows "(let eligible = shared_eligible d (productId ord);
              c = eligible ! (rnd mod length eligible);
              r = processOrderFulfillment isPaymentOrder rnd now d orderId paidAmount tn
          in c \<in> set (cards d) \<and> c_productId c = productId ord \<and> isUsed c \<noteq> Some True \<and>
             r = (Inr Processed,
                  d\<lparr>orders := (orders d)(orderId \<mapsto>
                    (delivered_row now tn (replicate (quantity_or_1 ord) (c_cardKey c)) ord)
                      \<lparr>currentPaymentId := None\<rparr>)\<rparr>) \<and>
             cards (snd r) = cards d \<and>
             (0 < quantity ord \<longrightarrow> quantity_or_1 ord = quantity ord))"
proof -
  let ?el = "shared_eligible d (productId ord)"
  let ?c = "?el ! (rnd mod length ?el)"
  have "?c \<in> set ?el"
    using assms(6) by simp
  then have c: "?c \<in> set (cards d) \<and> c_productId ?c = productId ord \<and> isUsed ?c \<noteq> Some True"
    by (simp add: shared_eligible_def unused_def)
  have r: "processOrderFulfillment isPaymentOrder rnd now d orderId paidAmount tn
      = (Inr Processed,
         d\<lparr>orders := (orders d)(orderId \<mapsto>
           (delivered_row now tn (replicate (quantity_or_1 ord) (c_cardKey ?c)) ord)
             \<lparr>currentPaymentId := None\<rparr>)\<rparr>)"
    using assms
    by (simp add: processOrderFulfillment_unfold fulfill_shared_def shared_select_def Let_def
        update_orders_def delivered_row_def)
  show ?thesis
    unfolding Let_def using c r by (simp add: quantity_or_1_def)
qed

theorem shared_delivery_witness:
  "processOrderFulfillment ex_isPaymentOrder 0 100000
       (ex_db (ex_order ''P'' ''pending'' 3) [ex_card 1 ''K1'' None None] True True)
       ''A'' (Fin 10) ''T''
     = (Inr Processed,
        ex_db ((ex_order ''P'' ''pending'' 3)\<lparr>status := ''delivered'', paidAt := Some 100000,
                 deliveredAt := Some 100000, tradeNo := Some ''T'',
                 cardKey := Some (''K1'' @ CHR 0x0A # ''K1'' @ CHR 0x0A # ''K1''),
                 currentPaymentId := None\<rparr>)
          [ex_card 1 ''K1'' None None] True True) \<and>
   isUsed (ex_card 1 ''K1'' None None) = None"
  using
    shared_delivery [where d = "ex_db (ex_order ''P'' ''pending'' 3)
        [ex_card 1 ''K1'' None None] True True" and orderId = "''A''"
      and ord = "ex_order ''P'' ''pending'' 3" and paidAmount = "Fin 10"
      and isPaymentOrder = ex_isPaymentOrder and rnd = 0 and now = 100000 and tn = "''T''"]
  by (simp add: ex_db_def ex_order_def ex_card_def ex_isPaymentOrder_def ex_amounts
      product_isShared_def shared_eligible_def unused_def quantity_or_1_def delivered_row_def
      Let_def numeral_3_eq_3)

text \<open>
  As the claim is worded, it covers every call on a pending order of a shared product
  with an unused card. With a mismatching amount the call fails and the order stays
  \<open>pending\<close>; when the product is of the payment kind the order becomes \<open>paid\<close> and gets
  no key.
\<close>

theorem shared_delivery_counterexample:
  "orders (ex_db (ex_order ''P'' ''pending'' 3) [ex_card 1 ''K1'' None None] True True) ''A''
     = Some (ex_order ''P'' ''pending'' 3) \<and>
   status (ex_order ''P'' ''pending'' 3) = ''pending'' \<and>
   product_isShared (ex_db (ex_order ''P'' ''pending'' 3) [ex_card 1 ''K1'' None None] True True)
     (productId (ex_order ''P'' ''pending'' 3)) \<and>
   shared_eligible (ex_db (ex_order ''P'' ''pending'' 3) [ex_card 1 ''K1'' None None] True True)
     (productId (ex_order ''P'' ''pending'' 3)) = [ex_card 1 ''K1'' None None] \<and>
   processOrderFulfillment ex_isPaymentOrder 0 100000
       (ex_db (ex_order ''P'' ''pending'' 3) [ex_card 1 ''K1'' None None] True True)
       ''A'' (Fin 1) ''T''
     = (Inl (AmountMismatch (double_of (999 / 100)) (Fin 1)),
        ex_db (ex_order ''P'' ''pending'' 3) [ex_card 1 ''K1'' None None] True True) \<and>
   processOrderFulfillment ex_paymentP 0 100000
       (ex_db (ex_order ''P'' ''pending'' 3) [ex_card 1 ''K1'' None None] True True)
       ''A'' (Fin 10) ''T''
     = (Inr Processed,
        ex_db (paid_row 100000 ''T'' (ex_order ''P'' ''pending'' 3))
          [ex_card 1 ''K1'' None None] True True)"
  by (simp add: processOrderFulfillment_unfold ex_amounts ex_db_def ex_order_def
      ex_card_def ex_isPaymentOrder_def ex_paymentP_def product_isShared_def
      shared_eligible_def unused_def update_orders_def paid_row_def Let_def)

subsection \<open>A failing lookup of reserved cards\<close>

text \<open>
  Claim C8 is about a store without the reservation columns. Take a call that reaches
  the exhaustible branch on a table without \<open>reservedOrderId\<close>. The failure of the
  Phase 1 query is caught: Phase 1 claims nothing and leaves the store as it was. When
  the table has \<open>reservedAt\<close>, the call returns \<open>processed\<close> with the outcome of Phase 2
  alone. When \<open>reservedAt\<close> is missing as well, the Phase 2 query of lines 140-143 raises
  outside the \<open>try\<close>: the call fails, and the order and the cards stay as they were.
\<close>

theorem reservation_columns_missing:
  assumes "orders d orderId = Some ord"
    and "\<not> amount_mismatch paidAmount (amount ord)"
    and "\<not> isPaymentOrder (productId ord)"
    and "status ord = ''pending'' \<or> status ord = ''cancelled''"
    and "\<not> product_isShared d (productId ord)"
    and "\<not> has_reservedOrderId d"
  shows "phase1 now d orderId (quantity_or_1 ord) = (d, []) \<and>
         processOrderFulfillment_on False isPaymentOrder rnd now d orderId paidAmount tn
           = (Inl QueryFailed, d) \<and>
         processOrderFulfillment_on True isPaymentOrder rnd now d orderId paidAmount tn
           = (Inr Processed,
              finish_order now orderId tn
                (phase2 now (productId ord) (quantity_or_1 ord) (d, []))) \<and>
         snd (phase2 now (productId ord) (quantity_or_1 ord) (d, []))
           = map c_cardKey
               (available_select (now - 60000) d (productId ord) (quantity_or_1 ord))"
proof -
  have p1: "phase1 now d orderId (quantity_or_1 ord) = (d, [])"
    using assms(6) by (simp add: phase1_def)
  have n: "0 < quantity_or_1 ord"
    by (simp add: quantity_or_1_def)
  have f: "processOrderFulfillment_on False isPaymentOrder rnd now d orderId paidAmount tn
      = (Inl QueryFailed, d)"
    using assms n
    by (simp add: processOrderFulfillment_on_def fulfill_exhaustible_on_def p1 phase2_on_def
        available_query_def Let_def)
  have t: "processOrderFulfillment_on True isPaymentOrder rnd now d orderId paidAmount tn
      = (Inr Processed,
         finish_order now orderId tn (phase2 now (productId ord) (quantity_or_1 ord) (d, [])))"
    using assms
    by (simp add: processOrderFulfillment_on_def fulfill_exhaustible_on_def p1 phase2_on_True
        Let_def)
  show ?thesis
    using p1 f t by (simp add: phase2_keys)
qed

theorem reservation_columns_missing_witness:
  "processOrderFulfillment_on False ex_isPaymentOrder 0 100000
       (ex_db (ex_order ''P'' ''pending'' 1) [ex_card 1 ''K1'' None None] False False)
       ''A'' (Fin 10) ''T''
     = (Inl QueryFailed,
        ex_db (ex_order ''P'' ''pending'' 1) [ex_card 1 ''K1'' None None] False False) \<and>
   processOrderFulfillment_on True ex_isPaymentOrder 0 100000
       (ex_db (ex_order ''P'' ''pending'' 1) [ex_card 1 ''K1'' None None] False False)
       ''A'' (Fin 10) ''T''
     = (Inr Processed,
        ex_db (delivered_row 100000 ''T'' [''K1''] (ex_order ''P'' ''pending'' 1))
          [(ex_card 1 ''K1'' None None)\<lparr>isUsed := Some True, usedAt := Some 100000\<rparr>]
          False False)"
  using
    reservation_columns_missing [where d = "ex_db (ex_order ''P'' ''pending'' 1)
        [ex_card 1 ''K1'' None None] False False"
      and orderId = "''A''" and ord = "ex_order ''P'' ''pending'' 1" and paidAmount = "Fin 10"
      and isPaymentOrder = ex_isPaymentOrder and rnd = 0 and now = 100000 and tn = "''T''"]
  by (simp add: ex_db_def ex_order_def ex_card_def ex_isPaymentOrder_def ex_amounts
      product_isShared_def quantity_or_1_def phase2_def available_select_def available_def
      unused_def update_cards_def finish_order_def update_orders_def delivered_row_def Let_def)

subsection \<open>Phase 2 and stale reservations\<close>

lemma claim_available_cards:
  "cards (fst (claim_available now cs s)) =
     map (\<lambda>c. if c_id c \<in> c_id ` set cs then c\<lparr>isUsed := Some True, usedAt := Some now\<rparr> else c)
       (cards (fst s))"
  by (induction now cs s rule: claim_available.induct) (auto simp: update_cards_def)

lemma available_iff:
  "available t pid c =
     (c_productId c = pid \<and> isUsed c \<noteq> Some True \<and>
      (reservedAt c = None \<or> (\<exists>u. reservedAt c = Some u \<and> u < t)))"
  by (auto simp: available_def unused_def split: option.splits)

lemma claim_available_frame:
  "fst (claim_available now cs s) = (fst s)\<lparr>cards := cards (fst (claim_available now cs s))\<rparr>"
  by (induction now cs s rule: claim_available.induct) (simp_all add: update_cards_def)

lemma available_select_explicit:
  "available_select (now - 60000) d pid k =
     take k (filter (\<lambda>c. c_productId c = pid \<and> isUsed c \<noteq> Some True \<and>
                          (reservedAt c = None \<or> (\<exists>t. reservedAt c = Some t \<and> t < now - 60000)))
               (cards d))"
  by (simp add: available_select_def available_iff cong: filter_cong)

text \<open>
  Claim C5. Take a call that reaches the exhaustible branch, and let \<open>reserved\<close> be the
  store and the keys that Phase 1 leaves. When Phase 1 claimed \<open>quantity\<close> keys or more,
  the call goes straight to the final update: Phase 2 does not run. Otherwise the
  candidates are exactly the cards of the order's product that are not used and whose
  \<open>reservedAt\<close> is null or earlier than \<open>now - 60000\<close> ms, in table order; the call selects
  the first \<open>quantity - claimed\<close> of them, or all if there are fewer, marks exactly those
  used, appends their keys, and makes the final update with them. A card reserved for
  another order longer ago than that is a candidate, and is selected when the
  candidates do not exceed the number still needed; a card whose reservation is not
  older than that is never selected.
\<close>

theorem phase2_selection:
  assumes "orders d orderId = Some ord"
    and "\<not> amount_mismatch paidAmount (amount ord)"
    and "\<not> isPaymentOrder (productId ord)"
    and "status ord = ''pending'' \<or> status ord = ''cancelled''"
    and "\<not> product_isShared d (productId ord)"
  shows "(let n = quantity_or_1 ord;
              pid = productId ord;
              reserved = phase1 now d orderId n;
              needed = n - length (snd reserved);
              candidates =
                filter (\<lambda>c. c_productId c = pid \<and> isUsed c \<noteq> Some True \<and>
                           (reservedAt c = None \<or>
                            (\<exists>t. reservedAt c = Some t \<and> t < now - 60000)))
                  (cards (fst reserved));
              sel = take needed candidates;
              claimed = (fst reserved)\<lparr>cards :=
                map (\<lambda>c. if c_id c \<in> c_id ` set sel
                          then c\<lparr>isUsed := Some True, usedAt := Some now\<rparr> else c)
                  (cards (fst reserved))\<rparr>;
              r = processOrderFulfillment isPaymentOrder rnd now d orderId paidAmount tn
          in (n \<le> length (snd reserved) \<longrightarrow>
                r = (Inr Processed, finish_order now orderId tn reserved)) \<and>
             (length (snd reserved) < n \<longrightarrow>
                r = (Inr Processed,
                     finish_order now orderId tn (claimed, snd reserved @ map c_cardKey sel)) \<and>
                cards (snd r) = cards claimed) \<and>
             length sel = min needed (length candidates) \<and>
             (\<forall>c \<in> set (cards (fst reserved)).
                c_productId c = pid \<and> isUsed c \<noteq> Some True \<and> reservedAt c = None
                \<longrightarrow> c \<in> set candidates) \<and>
             (\<forall>c \<in> set (cards (fst reserved)). \<forall>other t.
                c_productId c = pid \<and> isUsed c \<noteq> Some True \<and>
                reservedOrderId c = Some other \<and> reservedAt c = Some t \<and> t < now - 60000
                \<longrightarrow> c \<in> set candidates \<and> (length candidates \<le> needed \<longrightarrow> c \<in> set sel)) \<and>
             (\<forall>c \<in> set (cards (fst reserved)). \<forall>t.
                reservedAt c = Some t \<and> now - 60000 \<le> t \<longrightarrow> c \<notin> set sel) \<and>
             (\<forall>c \<in> set sel.
                c \<in> set (cards (fst reserved)) \<and> c_productId c = pid \<and>
                isUsed c \<noteq> Some True \<and>
                (reservedAt c = None \<or> (\<exists>t. reservedAt c = Some t \<and> t < now - 60000))))"
proof -
  let ?n = "quantity_or_1 ord"
  let ?pid = "productId ord"
  let ?res = "phase1 now d orderId ?n"
  let ?needed = "?n - length (snd ?res)"
  let ?P = "\<lambda>c. c_productId c = ?pid \<and> isUsed c \<noteq> Some True \<and>
      (reservedAt c = None \<or> (\<exists>t. reservedAt c = Some t \<and> t < now - 60000))"
  let ?cand = "filter ?P (cards (fst ?res))"
  let ?sel = "take ?needed ?cand"
  let ?cards = "map (\<lambda>c. if c_id c \<in> c_id ` set ?sel
      then c\<lparr>isUsed := Some True, usedAt := Some now\<rparr> else c) (cards (fst ?res))"
  let ?claimed = "(fst ?res)\<lparr>cards := ?cards\<rparr>"
  let ?r = "processOrderFulfillment isPaymentOrder rnd now d orderId paidAmount tn"
  have r: "?r = (Inr Processed, finish_order now orderId tn (phase2 now ?pid ?n ?res))"
    using assms by (simp add: processOrderFulfillment_unfold fulfill_exhaustible_unfold Let_def)
  have sel: "available_select (now - 60000) (fst ?res) ?pid ?needed = ?sel"
    by (rule available_select_explicit)
  have a: "?r = (Inr Processed, finish_order now orderId tn ?res)" if "?n \<le> length (snd ?res)"
    using that by (simp add: r phase2_def)
  have p2: "phase2 now ?pid ?n ?res = (?claimed, snd ?res @ map c_cardKey ?sel)"
    if "length (snd ?res) < ?n"
  proof -
    have e: "phase2 now ?pid ?n ?res = claim_available now ?sel ?res"
      using that by (simp add: phase2_def sel)
    have "fst (claim_available now ?sel ?res) = ?claimed"
      using claim_available_frame [of now ?sel ?res]
      by (simp add: claim_available_cards)
    moreover have "snd (claim_available now ?sel ?res) = snd ?res @ map c_cardKey ?sel"
      by (rule claim_available_keys)
    ultimately show ?thesis
      unfolding e by (simp add: prod_eq_iff)
  qed
  have b: "?r = (Inr Processed,
      finish_order now orderId tn (?claimed, snd ?res @ map c_cardKey ?sel))"
    if "length (snd ?res) < ?n"
    using p2 [OF that] by (simp add: r)
  have fc: "cards (finish_order now orderId tn s) = cards (fst s)" for s
    by (simp add: finish_order_def update_orders_def split: option.split)
  have b': "cards (snd ?r) = cards ?claimed" if "length (snd ?res) < ?n"
    using b [OF that] by (simp add: fc)
  have len: "length ?sel = min ?needed (length ?cand)"
    by simp
  have c0: "\<forall>c \<in> set (cards (fst ?res)).
      c_productId c = ?pid \<and> isUsed c \<noteq> Some True \<and> reservedAt c = None \<longrightarrow> c \<in> set ?cand"
    by simp
  have c3: "\<forall>c \<in> set (cards (fst ?res)). \<forall>other t.
      c_productId c = ?pid \<and> isUsed c \<noteq> Some True \<and>
      reservedOrderId c = Some other \<and> reservedAt c = Some t \<and> t < now - 60000
      \<longrightarrow> c \<in> set ?cand \<and> (length ?cand \<le> ?needed \<longrightarrow> c \<in> set ?sel)"
    by simp
  have sub: "\<forall>c \<in> set ?sel. c \<in> set ?cand"
    by (meson in_set_takeD)
  have c1: "\<forall>c \<in> set ?sel.
      c \<in> set (cards (fst ?res)) \<and> c_productId c = ?pid \<and> isUsed c \<noteq> Some True \<and>
      (reservedAt c = None \<or> (\<exists>t. reservedAt c = Some t \<and> t < now - 60000))"
  proof (intro ballI)
    fix c
    assume "c \<in> set ?sel"
    then have "c \<in> set ?cand"
      by (rule in_set_takeD)
    then show "c \<in> set (cards (fst ?res)) \<and> c_productId c = ?pid \<and> isUsed c \<noteq> Some True \<and>
        (reservedAt c = None \<or> (\<exists>t. reservedAt c = Some t \<and> t < now - 60000))"
      by simp
  qed
  have c2: "\<forall>c \<in> set (cards (fst ?res)). \<forall>t.
      reservedAt c = Some t \<and> now - 60000 \<le> t \<longrightarrow> c \<notin> set ?sel"
    using sub by fastforce
  show ?thesis
    unfolding Let_def
    apply (intro conjI impI)
    subgoal by (erule a)
    subgoal by (erule b)
    subgoal by (erule b')
    subgoal by (rule len)
    subgoal by (rule c0)
    subgoal by (rule c3)
    subgoal by (rule c2)
    subgoal by (rule c1)
    done
qed

theorem phase2_selection_witness:
  "cards (snd (processOrderFulfillment ex_isPaymentOrder 0 100000
       (ex_db (ex_order ''P'' ''pending'' 3) ex_cards5 False True) ''A'' (Fin 10) ''T''))
     = [(ex_card 1 ''K1'' (Some ''B'') (Some 1000))\<lparr>isUsed := Some True, usedAt := Some 100000\<rparr>,
        ex_card 2 ''K2'' (Some ''B'') (Some 90000),
        (ex_card 3 ''K3'' None None)\<lparr>isUsed := Some True, usedAt := Some 100000\<rparr>,
        (ex_card 4 ''K4'' None None)\<lparr>isUsed := Some True, usedAt := Some 100000\<rparr>] \<and>
   orders (snd (processOrderFulfillment ex_isPaymentOrder 0 100000
       (ex_db (ex_order ''P'' ''pending'' 3) ex_cards5 False True) ''A'' (Fin 10) ''T'')) ''A''
     = Some (delivered_row 100000 ''T'' [''K1'', ''K3'', ''K4''] (ex_order ''P'' ''pending'' 3)) \<and>
   cards (snd (processOrderFulfillment ex_isPaymentOrder 0 100000
       (ex_db (ex_order ''P'' ''pending'' 1)
          [ex_card 5 ''K5'' (Some ''A'') (Some 90000), ex_card 3 ''K3'' None None] False True)
       ''A'' (Fin 10) ''T''))
     = [(ex_card 5 ''K5'' None None)\<lparr>isUsed := Some True, usedAt := Some 100000\<rparr>,
        ex_card 3 ''K3'' None None] \<and>
   orders (snd (processOrderFulfillment ex_isPaymentOrder 0 100000
       (ex_db (ex_order ''P'' ''pending'' 1)
          [ex_card 5 ''K5'' (Some ''A'') (Some 90000), ex_card 3 ''K3'' None None] False True)
       ''A'' (Fin 10) ''T'')) ''A''
     = Some (delivered_row 100000 ''T'' [''K5''] (ex_order ''P'' ''pending'' 1))"
  using
    phase2_selection [where d = "ex_db (ex_order ''P'' ''pending'' 3) ex_cards5 False True"
      and orderId = "''A''" and ord = "ex_order ''P'' ''pending'' 3" and paidAmount = "Fin 10"
      and isPaymentOrder = ex_isPaymentOrder and rnd = 0 and now = 100000 and tn = "''T''",
      unfolded Let_def, THEN conjunct2, THEN conjunct1]
    phase2_selection [where d = "ex_db (ex_order ''P'' ''pending'' 1)
        [ex_card 5 ''K5'' (Some ''A'') (Some 90000), ex_card 3 ''K3'' None None] False True"
      and orderId = "''A''" and ord = "ex_order ''P'' ''pending'' 1" and paidAmount = "Fin 10"
      and isPaymentOrder = ex_isPaymentOrder and rnd = 0 and now = 100000 and tn = "''T''",
      unfolded Let_def, THEN conjunct1]
  by (simp add: ex_db_def ex_order_def ex_cards5_def ex_card_def ex_isPaymentOrder_def ex_amounts
      product_isShared_def quantity_or_1_def phase1_def reserved_select_def unused_def
      update_cards_def finish_order_def update_orders_def delivered_row_def)

subsection \<open>Delivered orders\<close>

lemma join_nl_nonempty: "ks \<noteq> [] \<Longrightarrow> \<forall>k \<in> set ks. k \<noteq> [] \<Longrightarrow> join_nl ks \<noteq> []"
  by (induction ks rule: join_nl.induct) simp_all

lemma claim_reserved_card_keys:
  "map c_cardKey (cards (fst (claim_reserved now cs s))) = map c_cardKey (cards (fst s))"
  by (induction now cs s rule: claim_reserved.induct) (simp_all add: update_cards_def comp_def)

lemma phase1_card_keys:
  "map c_cardKey (cards (fst (phase1 now d orderId n))) = map c_cardKey (cards d)"
  by (simp add: phase1_def claim_reserved_card_keys)

lemma phase1_keys_subset: "set (snd (phase1 now d orderId n)) \<subseteq> c_cardKey ` set (cards d)"
  by (auto simp: phase1_keys reserved_select_def dest: in_set_takeD)

lemma claimed_keys_subset:
  "set (snd (phase2 now pid n (phase1 now d orderId n))) \<subseteq> c_cardKey ` set (cards d)"
proof -
  have "set (map c_cardKey (cards (fst (phase1 now d orderId n)))) = set (map c_cardKey (cards d))"
    by (simp only: phase1_card_keys)
  then have e: "c_cardKey ` set (cards (fst (phase1 now d orderId n))) = c_cardKey ` set (cards d)"
    by simp
  have "set (map c_cardKey (available_select t (fst (phase1 now d orderId n)) pid m))
      \<subseteq> c_cardKey ` set (cards (fst (phase1 now d orderId n)))" for t m
    by (auto simp: available_select_def dest: in_set_takeD)
  then show ?thesis
    using phase1_keys_subset [of now d orderId n] unfolding e
    by (simp add: phase2_keys)
qed

lemma orders_update_orders_all:
  "orders d orderId = Some ord \<Longrightarrow>
   orders (update_orders d orderId f) = (orders d)(orderId \<mapsto> f ord)"
  by (simp add: update_orders_def)

lemma orders_fulfill_shared:
  assumes "orders d orderId = Some ord"
  shows "orders (snd (fulfill_shared rnd now d orderId ord tn))
           = (orders d)(orderId \<mapsto> paid_row now tn ord) \<or>
         (\<exists>ks. ks \<noteq> [] \<and> set ks \<subseteq> c_cardKey ` set (cards d) \<and>
            orders (snd (fulfill_shared rnd now d orderId ord tn))
              = (orders d)(orderId \<mapsto> (delivered_row now tn ks ord)\<lparr>currentPaymentId := None\<rparr>))"
proof (cases "shared_eligible d (productId ord) = []")
  case True
  then show ?thesis
    using assms
    by (simp add: fulfill_shared_def shared_select_def orders_update_orders_all paid_row_def)
next
  case False
  let ?el = "shared_eligible d (productId ord)"
  let ?c = "?el ! (rnd mod length ?el)"
  let ?ks = "replicate (quantity_or_1 ord) (c_cardKey ?c)"
  have "?c \<in> set ?el"
    using False by simp
  then have "?c \<in> set (cards d)"
    by (simp add: shared_eligible_def)
  then have sub: "set ?ks \<subseteq> c_cardKey ` set (cards d)"
    by auto
  have ne: "?ks \<noteq> []"
    by (simp add: quantity_or_1_def)
  have "orders (snd (fulfill_shared rnd now d orderId ord tn))
      = (orders d)(orderId \<mapsto> (delivered_row now tn ?ks ord)\<lparr>currentPaymentId := None\<rparr>)"
    using False assms
    by (simp add: fulfill_shared_def shared_select_def orders_update_orders_all
        delivered_row_def Let_def)
  with sub ne show ?thesis
    by blast
qed

lemma orders_fulfill_exhaustible:
  assumes "orders d orderId = Some ord"
  shows "orders (snd (fulfill_exhaustible now d orderId ord tn))
           = (orders d)(orderId \<mapsto> paid_row now tn ord) \<or>
         (\<exists>ks. ks \<noteq> [] \<and> set ks \<subseteq> c_cardKey ` set (cards d) \<and>
            orders (snd (fulfill_exhaustible now d orderId ord tn))
              = (orders d)(orderId \<mapsto> delivered_row now tn ks ord))"
proof -
  let ?n = "quantity_or_1 ord"
  let ?s = "phase2 now (productId ord) ?n (phase1 now d orderId ?n)"
  have o: "orders (fst ?s) = orders d"
    by (simp add: phase2_orders phase1_orders)
  have r: "snd (fulfill_exhaustible now d orderId ord tn) = finish_order now orderId tn ?s"
    by (simp add: fulfill_exhaustible_unfold Let_def)
  show ?thesis
  proof (cases "snd ?s = []")
    case True
    then have "orders (finish_order now orderId tn ?s) = (orders d)(orderId \<mapsto> paid_row now tn ord)"
      using assms o by (simp add: finish_order_def orders_update_orders_all paid_row_def)
    then show ?thesis
      by (simp only: r) simp
  next
    case False
    then have "orders (finish_order now orderId tn ?s)
        = (orders d)(orderId \<mapsto> delivered_row now tn (snd ?s) ord)"
      using assms o by (simp add: finish_order_def orders_update_orders_all delivered_row_def)
    with False claimed_keys_subset [of now "productId ord" ?n d orderId] show ?thesis
      unfolding r by blast
  qed
qed

lemma orders_after_call:
  "orders (snd (processOrderFulfillment isPaymentOrder rnd now d orderId paidAmount tn)) = orders d \<or>
   (\<exists>ord. orders d orderId = Some ord \<and> (status ord = ''pending'' \<or> status ord = ''cancelled'') \<and>
      (orders (snd (processOrderFulfillment isPaymentOrder rnd now d orderId paidAmount tn))
         = (orders d)(orderId \<mapsto> paid_row now tn ord) \<or>
       (\<exists>ks. ks \<noteq> [] \<and> set ks \<subseteq> c_cardKey ` set (cards d) \<and>
          (orders (snd (processOrderFulfillment isPaymentOrder rnd now d orderId paidAmount tn))
             = (orders d)(orderId \<mapsto> delivered_row now tn ks ord) \<or>
           orders (snd (processOrderFulfillment isPaymentOrder rnd now d orderId paidAmount tn))
             = (orders d)(orderId \<mapsto> (delivered_row now tn ks ord)\<lparr>currentPaymentId := None\<rparr>)))))"
proof (cases "orders d orderId")
  case None
  then show ?thesis
    by (simp add: processOrderFulfillment_unfold)
next
  case (Some ord)
  let ?r = "processOrderFulfillment isPaymentOrder rnd now d orderId paidAmount tn"
  consider (same) "snd ?r = d"
    | (pay) "status ord = ''pending'' \<or> status ord = ''cancelled''"
        "snd ?r = update_orders d orderId (paid_row now tn)"
    | (shared) "status ord = ''pending'' \<or> status ord = ''cancelled''"
        "snd ?r = snd (fulfill_shared rnd now d orderId ord tn)"
    | (exhaustible) "status ord = ''pending'' \<or> status ord = ''cancelled''"
        "snd ?r = snd (fulfill_exhaustible now d orderId ord tn)"
    using Some
    by (cases "amount_mismatch paidAmount (amount ord)";
        cases "isPaymentOrder (productId ord)";
        cases "status ord = ''pending'' \<or> status ord = ''cancelled''";
        cases "product_isShared d (productId ord)")
      (simp_all add: processOrderFulfillment_unfold Let_def paid_row_def)
  then show ?thesis
  proof cases
    case same
    then show ?thesis by simp
  next
    case pay
    then show ?thesis
      using Some by (simp add: orders_update_orders_all)
  next
    case shared
    then show ?thesis
      using Some orders_fulfill_shared [OF Some, of rnd now tn] by (simp only:) blast
  next
    case exhaustible
    then show ?thesis
      using Some orders_fulfill_exhaustible [OF Some, of now tn] by (simp only:) blast
  qed
qed

lemma delivered_row_facts:
  "status (delivered_row now tn ks ord) = ''delivered''"
  "cardKey (delivered_row now tn ks ord) = Some (join_nl ks)"
  "cardKey ((delivered_row now tn ks ord)\<lparr>currentPaymentId := None\<rparr>) = Some (join_nl ks)"
  "status (paid_row now tn ord) = ''paid''"
  by (simp_all add: delivered_row_def paid_row_def)

lemma delivered_kept_by_call:
  assumes "orders d oid = Some ord" and "status ord = ''delivered''"
  shows "orders (snd (processOrderFulfillment isPaymentOrder rnd now d orderId paidAmount tn)) oid
           = Some ord"
  using orders_after_call [of isPaymentOrder rnd now d orderId paidAmount tn] assms
  by (cases "oid = orderId") auto

lemma delivered_kept_by_calls:
  "orders d oid = Some ord \<Longrightarrow> status ord = ''delivered'' \<Longrightarrow>
   orders (run_calls isPaymentOrder cs d) oid = Some ord"
  by (induction cs arbitrary: d) (simp_all add: delivered_kept_by_call)

text \<open>
  Calls that run one after the other. When such a call moves an order to \<open>delivered\<close>,
  the \<open>cardKey\<close> it writes is the newline-join of at least one key of the cards table; it
  is a non-empty string when no card has an empty key. An order that is \<open>delivered\<close>
  when a call starts is left as it is, in every field, by that call and by any sequence
  of such calls.
\<close>

lemma delivered_cardKey_sequential:
  "(let r = processOrderFulfillment isPaymentOrder rnd now d orderId paidAmount tn
    in (\<forall>oid ord ord'. orders d oid = Some ord \<and> status ord \<noteq> ''delivered'' \<and>
          orders (snd r) oid = Some ord' \<and> status ord' = ''delivered'' \<longrightarrow>
            (\<exists>ks. ks \<noteq> [] \<and> set ks \<subseteq> c_cardKey ` set (cards d) \<and>
               cardKey ord' = Some (join_nl ks)) \<and>
            ((\<forall>c \<in> set (cards d). c_cardKey c \<noteq> []) \<longrightarrow> cardKey ord' \<noteq> Some [])) \<and>
       (\<forall>oid ord cs. orders d oid = Some ord \<and> status ord = ''delivered'' \<longrightarrow>
          orders (snd r) oid = Some ord \<and>
          orders (run_calls isPaymentOrder cs d) oid = Some ord))"
proof -
  let ?r = "processOrderFulfillment isPaymentOrder rnd now d orderId paidAmount tn"
  have a: "\<exists>ks. ks \<noteq> [] \<and> set ks \<subseteq> c_cardKey ` set (cards d) \<and> cardKey ord' = Some (join_nl ks)"
    if "orders d oid = Some ord" "status ord \<noteq> ''delivered''"
      "orders (snd ?r) oid = Some ord'" "status ord' = ''delivered''" for oid ord ord'
    using orders_after_call [of isPaymentOrder rnd now d orderId paidAmount tn] that
    by (cases "oid = orderId") (fastforce simp: delivered_row_facts)+
  have b: "cardKey ord' \<noteq> Some []"
    if h: "orders d oid = Some ord" "status ord \<noteq> ''delivered''"
      "orders (snd ?r) oid = Some ord'" "status ord' = ''delivered''"
      "\<forall>c \<in> set (cards d). c_cardKey c \<noteq> []" for oid ord ord'
  proof -
    obtain ks where ks: "ks \<noteq> []" "set ks \<subseteq> c_cardKey ` set (cards d)"
        "cardKey ord' = Some (join_nl ks)"
      using a [OF h(1-4)] by blast
    have "\<forall>k \<in> set ks. k \<noteq> []"
      using ks(2) h(5) by (metis imageE subsetD)
    then show ?thesis
      using join_nl_nonempty [OF ks(1)] ks(3) by simp
  qed
  show ?thesis
    unfolding Let_def
    apply (intro conjI allI impI)
    subgoal by (elim conjE) (rule a)
    subgoal by (elim conjE) (rule b)
    subgoal by (elim conjE) (rule delivered_kept_by_call)
    subgoal by (elim conjE) (rule delivered_kept_by_calls)
    done
qed


text \<open>
  A single card whose key is the empty string is delivered as an empty \<open>cardKey\<close>.
\<close>

lemma empty_key_delivered:
  "status (ex_order ''P'' ''pending'' 1) = ''pending'' \<and>
   orders (snd (processOrderFulfillment ex_isPaymentOrder 0 100000
       (ex_db (ex_order ''P'' ''pending'' 1) [ex_card 1 [] None None] False True)
       ''A'' (Fin 10) ''T'')) ''A''
     = Some (delivered_row 100000 ''T'' [[]] (ex_order ''P'' ''pending'' 1)) \<and>
   status (delivered_row 100000 ''T'' [[]] (ex_order ''P'' ''pending'' 1)) = ''delivered'' \<and>
   cardKey (delivered_row 100000 ''T'' [[]] (ex_order ''P'' ''pending'' 1)) = Some []"
  by (simp add: processOrderFulfillment_unfold fulfill_exhaustible_unfold finish_order_def
      update_orders_def ex_db_def ex_order_def ex_card_def ex_isPaymentOrder_def
      ex_amounts product_isShared_def quantity_or_1_def phase1_def phase2_def
      reserved_select_def available_select_def available_def unused_def update_cards_def
      delivered_row_def Let_def)

subsection \<open>Concurrent calls\<close>

lemma steps_add: "steps now (a + b) s = steps now b (steps now a s)"
  by (induction a arbitrary: s) simp_all

lemma steps_Phase1_loop:
  "t_pc t = Phase1_loop \<Longrightarrow>
   steps now (Suc (length (t_rows t))) (d, t) =
     (fst (claim_reserved now (t_rows t) (d, t_cardKeys t)),
      t\<lparr>t_rows := [], t_cardKeys := snd (claim_reserved now (t_rows t) (d, t_cardKeys t)),
        t_pc := Phase2_query\<rparr>)"
proof (induction "t_rows t" arbitrary: d t)
  case Nil
  then show ?case
    by (simp add: step_def Let_def)
next
  case (Cons c rest)
  let ?d = "update_cards d (c_id c) (\<lambda>row. row\<lparr>isUsed := Some True,
      usedAt := Some now, reservedOrderId := None, reservedAt := None\<rparr>)"
  let ?t = "t\<lparr>t_rows := rest, t_cardKeys := t_cardKeys t @ [c_cardKey c]\<rparr>"
  have s: "step now d t = (?d, ?t)"
    using Cons.hyps(2) [symmetric] Cons.prems by (simp add: step_def Let_def)
  have "steps now (Suc (length (t_rows ?t))) (?d, ?t) =
      (fst (claim_reserved now (t_rows ?t) (?d, t_cardKeys ?t)),
       ?t\<lparr>t_rows := [], t_cardKeys := snd (claim_reserved now (t_rows ?t) (?d, t_cardKeys ?t)),
         t_pc := Phase2_query\<rparr>)"
    using Cons.prems by (intro Cons.hyps(1)) simp_all
  then show ?case
    using s Cons.hyps(2) [symmetric] by simp
qed

lemma steps_Phase2_loop:
  "t_pc t = Phase2_loop \<Longrightarrow>
   steps now (Suc (length (t_rows t))) (d, t) =
     (fst (claim_available now (t_rows t) (d, t_cardKeys t)),
      t\<lparr>t_rows := [], t_cardKeys := snd (claim_available now (t_rows t) (d, t_cardKeys t)),
        t_pc := Final_update\<rparr>)"
proof (induction "t_rows t" arbitrary: d t)
  case Nil
  then show ?case
    by (simp add: step_def Let_def)
next
  case (Cons c rest)
  let ?d = "update_cards d (c_id c) (\<lambda>row. row\<lparr>isUsed := Some True, usedAt := Some now\<rparr>)"
  let ?t = "t\<lparr>t_rows := rest, t_cardKeys := t_cardKeys t @ [c_cardKey c]\<rparr>"
  have s: "step now d t = (?d, ?t)"
    using Cons.hyps(2) [symmetric] Cons.prems by (simp add: step_def Let_def)
  have "steps now (Suc (length (t_rows ?t))) (?d, ?t) =
      (fst (claim_available now (t_rows ?t) (?d, t_cardKeys ?t)),
       ?t\<lparr>t_rows := [], t_cardKeys := snd (claim_available now (t_rows ?t) (?d, t_cardKeys ?t)),
         t_pc := Final_update\<rparr>)"
    using Cons.prems by (intro Cons.hyps(1)) simp_all
  then show ?case
    using s Cons.hyps(2) [symmetric] by simp
qed


lemma phase1_as_loop:
  "phase1 now d orderId n =
     claim_reserved now (if has_reservedOrderId d then reserved_select d orderId n else []) (d, [])"
  by (simp add: phase1_def)

text \<open>
  A task that runs alone does what \<open>fulfill_exhaustible\<close> does: after some number of
  steps it has returned, and the store and its keys are those of the sequential model.
\<close>

lemma steps_sequential:
  "\<exists>k t'. steps now k (d, start orderId ord tn)
            = (snd (fulfill_exhaustible now d orderId ord tn), t') \<and>
          t_pc t' = Returned \<and>
          t_cardKeys t' = snd (phase2 now (productId ord) (quantity_or_1 ord)
                                 (phase1 now d orderId (quantity_or_1 ord)))"
proof -
  let ?n = "quantity_or_1 ord"
  let ?R1 = "if has_reservedOrderId d then reserved_select d orderId ?n else []"
  let ?t1 = "(start orderId ord tn)\<lparr>t_rows := ?R1, t_pc := Phase1_loop\<rparr>"
  let ?p1 = "phase1 now d orderId ?n"
  let ?t2 = "?t1\<lparr>t_rows := [], t_cardKeys := snd ?p1, t_pc := Phase2_query\<rparr>"
  let ?p2 = "phase2 now (productId ord) ?n ?p1"
  let ?t4 = "?t2\<lparr>t_rows := [], t_cardKeys := snd ?p2, t_pc := Final_update\<rparr>"
  let ?t5 = "?t4\<lparr>t_pc := Returned\<rparr>"
  have a: "steps now (Suc 0) (d, start orderId ord tn) = (d, ?t1)"
    by (simp add: step_def start_def Let_def)
  have b: "steps now (Suc (length ?R1)) (d, ?t1) = (fst ?p1, ?t2)"
    using steps_Phase1_loop [of ?t1 now d]
    by (simp add: phase1_as_loop start_def del: steps.simps)
  have c: "\<exists>j. steps now j (fst ?p1, ?t2) = (fst ?p2, ?t4)"
  proof (cases "length (snd ?p1) < ?n")
    case True
    let ?R2 = "available_select (now - 60000) (fst ?p1) (productId ord) (?n - length (snd ?p1))"
    let ?t3 = "?t2\<lparr>t_rows := ?R2, t_pc := Phase2_loop\<rparr>"
    have c1: "steps now (Suc 0) (fst ?p1, ?t2) = (fst ?p1, ?t3)"
      using True by (simp add: step_def start_def Let_def)
    have p2: "?p2 = claim_available now ?R2 ?p1"
      using True by (simp add: phase2_def Let_def)
    have c2: "steps now (Suc (length ?R2)) (fst ?p1, ?t3) = (fst ?p2, ?t4)"
      using steps_Phase2_loop [of ?t3 now "fst ?p1"]
      by (simp add: p2 start_def del: steps.simps)
    have "steps now (Suc 0 + Suc (length ?R2)) (fst ?p1, ?t2) = (fst ?p2, ?t4)"
      by (simp only: steps_add c1 c2)
    then show ?thesis
      by blast
  next
    case False
    then have p2: "?p2 = ?p1"
      by (simp add: phase2_def Let_def)
    have "steps now (Suc 0) (fst ?p1, ?t2) = (fst ?p2, ?t4)"
      using False by (simp add: step_def start_def Let_def p2)
    then show ?thesis
      by blast
  qed
  then obtain j where c': "steps now j (fst ?p1, ?t2) = (fst ?p2, ?t4)"
    by blast
  have e: "steps now (Suc 0) (fst ?p2, ?t4) = (snd (fulfill_exhaustible now d orderId ord tn), ?t5)"
    by (simp add: step_def start_def Let_def fulfill_exhaustible_unfold)
  have "steps now (Suc 0 + Suc (length ?R1) + j + Suc 0) (d, start orderId ord tn)
      = (snd (fulfill_exhaustible now d orderId ord tn), ?t5)"
    by (simp only: steps_add a b c' e)
  moreover have "t_pc ?t5 = Returned" "t_cardKeys ?t5 = snd ?p2"
    by simp_all
  ultimately show ?thesis
    by blast
qed

lemma run_single:
  "run now (replicate k 0) (d, [t]) = (fst (steps now k (d, t)), [snd (steps now k (d, t))])"
  by (induction k arbitrary: d t) (simp_all split: prod.split)

text \<open>
  Claim C6 asks that concurrent calls for distinct orders of quantity 1, on a product
  with exactly as many unused cards, each receive a card of their own. Take two orders
  and two cards, and the schedule in which both Phase 2 queries are answered before
  either call updates a card: both queries return card 1, both calls mark it used (the
  update of lines 146-151 does not test \<open>isUsed\<close>), both orders are delivered the key
  \<open>K1\<close>, and card 2 stays unused. The same two calls one after the other receive \<open>K1\<close>
  and \<open>K2\<close>.
\<close>

theorem concurrent_double_claim:
  "map t_pc (snd (run 100000 ex_interleaved (ex_db2, ex_tasks))) = [Returned, Returned] \<and>
   map t_cardKeys (snd (run 100000 ex_interleaved (ex_db2, ex_tasks))) = [[''K1''], [''K1'']] \<and>
   orders (fst (run 100000 ex_interleaved (ex_db2, ex_tasks))) ''A''
     = Some (delivered_row 100000 ''TA'' [''K1''] (ex_order ''P'' ''pending'' 1)) \<and>
   orders (fst (run 100000 ex_interleaved (ex_db2, ex_tasks))) ''B''
     = Some (delivered_row 100000 ''TB'' [''K1''] (ex_order ''P'' ''pending'' 1)) \<and>
   cards (fst (run 100000 ex_interleaved (ex_db2, ex_tasks)))
     = [(ex_card 1 ''K1'' None None)\<lparr>isUsed := Some True, usedAt := Some 100000\<rparr>,
        ex_card 2 ''K2'' None None] \<and>
   map t_pc (snd (run 100000 ex_sequential (ex_db2, ex_tasks))) = [Returned, Returned] \<and>
   map t_cardKeys (snd (run 100000 ex_sequential (ex_db2, ex_tasks))) = [[''K1''], [''K2'']]"
  by code_simp

text \<open>
  Claim C7 asks that a delivered order keeps its \<open>cardKey\<close> and its other fields. Take
  two calls for the same order \<open>A\<close>, the second a duplicate of the payment callback, that
  have both read the order as \<open>pending\<close> (line 23) and entered the exhaustible branch
  before either wrote anything. The first call runs to its end: after its six steps
  \<open>A\<close> is \<open>delivered\<close> with key \<open>K1\<close> and trade number \<open>TA\<close>, and stays so during the next
  five steps, in which the second call claims card 2. The final update of the second
  call (lines 161-169, which do not test the status) then overwrites the delivered
  order: \<open>cardKey\<close> becomes \<open>K2\<close>, \<open>tradeNo\<close> becomes \<open>TB\<close>, and both cards are used.
\<close>

theorem delivered_order_overwritten:
  "orders (fst (run 100000 (take 6 ex_sequential) (ex_db2, ex_duplicate))) ''A''
     = Some (delivered_row 100000 ''TA'' [''K1''] (ex_order ''P'' ''pending'' 1)) \<and>
   orders (fst (run 100000 (take 11 ex_sequential) (ex_db2, ex_duplicate))) ''A''
     = Some (delivered_row 100000 ''TA'' [''K1''] (ex_order ''P'' ''pending'' 1)) \<and>
   orders (fst (run 100000 ex_sequential (ex_db2, ex_duplicate))) ''A''
     = Some (delivered_row 100000 ''TB'' [''K2''] (ex_order ''P'' ''pending'' 1)) \<and>
   map t_pc (snd (run 100000 ex_sequential (ex_db2, ex_duplicate))) = [Returned, Returned] \<and>
   cards (fst (run 100000 ex_sequential (ex_db2, ex_duplicate)))
     = [(ex_card 1 ''K1'' None None)\<lparr>isUsed := Some True, usedAt := Some 100000\<rparr>,
        (ex_card 2 ''K2'' None None)\<lparr>isUsed := Some True, usedAt := Some 100000\<rparr>]"
  by code_simp

end
